theory Spec2Isabelle
  imports Complex_Main "HOL-Library.AList" "HOL-Library.Word"
begin

section \<open>proxyd start-up: a shallow embedding of \<open>proxyd/proxyd.go\<close>\<close>

text \<open>
  The theory embeds \<open>Start\<close>, \<open>secondsToDuration\<close>, \<open>configureBackendTLS\<close> and
  \<open>makeUint64LastValueFn\<close> of \<open>proxyd/proxyd.go\<close>.

  \<^item> Go's \<open>(value, error)\<close> results are sums \<open>error + 'a\<close>, \<open>Inl\<close> the error.
  \<^item> Go maps are association lists: \<open>range\<close> visits the entries in list order (Go leaves
    the order unspecified; a statement about all lists covers every order), \<open>m[k]\<close> is
    \<open>map_of m k\<close> and \<open>m[k] = v\<close> is \<open>AList.update k v m\<close>.
  \<^item> Go's \<open>int\<close>, \<open>int64\<close> and \<open>time.Duration\<close> are \<open>int\<close>; the one product
    that can overflow (\<open>secondsToDuration\<close>) wraps explicitly. \<open>uint64\<close> in the number
    parser is \<open>64 word\<close>.
  \<^item> The three global error values whose \<open>Message\<close> field \<open>Start\<close> assigns are an
    explicit state, passed in and returned.
  \<^item> Functions that \<open>Start\<close> calls and that live in other files (\<open>ReadFromEnvOrConfig\<close>,
    \<open>NewRedisClient\<close>, \<open>CreateTLSClient\<close>, \<open>ParseKeyPair\<close>, \<open>ethclient.Dial\<close>,
    \<open>NewServer\<close>, \<open>os.Getenv\<close>) are fields of a record of collaborators, so every
    theorem about \<open>Start\<close> holds for whatever they return. Objects built by constructors
    of other files (\<open>NewBackend\<close>, \<open>NewConsensusPoller\<close>, \<open>newRPCCache\<close>, ...) are the
    constructor applied to its arguments.
  \<^item> The goroutines \<open>Start\<close> launches (metrics server, RPC and WS listeners), the 10ms
    timer, the deferred \<open>ethClient.Close()\<close> and logging are not part of the model.
\<close>

subsection \<open>Errors\<close>

text \<open>
  \<open>Error msg\<close> is \<open>errors.New(msg)\<close> or \<open>fmt.Errorf\<close> with the message formatted;
  \<open>Wrap prefix err\<close> is \<open>fmt.Errorf(prefix + "%w", err)\<close>; \<open>NumError fn num err\<close> is
  \<open>strconv.NumError\<close>; \<open>Panic\<close> is a run-time panic.
\<close>

datatype error =
  Error string
  | Wrap string error
  | NumError string string error
  | Panic string

definition ErrSyntax :: error where
  "ErrSyntax = Error ''invalid syntax''"

definition ErrRange :: error where
  "ErrRange = Error ''value out of range''"

subsection \<open>Configuration (the fields that \<open>Start\<close> reads)\<close>

record BackendOptions =
  ResponseTimeoutSeconds :: int
  MaxRetries :: int
  MaxResponseSizeBytes :: int
  OutOfServiceSeconds :: int
  MaxDegradedLatencyThreshold :: int
  MaxLatencyThreshold :: int
  MaxErrorRateThreshold :: real

record BackendConfig =
  Username :: string
  Password :: string
  RPCURL :: string
  WSURL :: string
  MaxRPS :: int
  MaxWSConns :: int
  CAFile :: string
  ClientCertFile :: string
  ClientKeyFile :: string
  StripTrailingXFF :: bool
  SkipPeerCountCheck :: bool

record BackendGroupConfig =
  BackendGroupConfig_Backends :: "string list"
  ConsensusAware :: bool
  ConsensusAsyncHandler :: string
  ConsensusBanPeriod :: int
  ConsensusMaxUpdateThreshold :: int
  ConsensusMaxBlockLag :: int
  ConsensusMinPeerCount :: int

record RedisConfig =
  URL :: string

record RateLimitConfig =
  UseRedis :: bool
  EnableBackendRateLimiter :: bool
  RateLimit_ErrorMessage :: string

record BatchConfig =
  MaxSize :: int
  BatchConfig_ErrorMessage :: string

record SenderRateLimitConfig =
  SenderRateLimit_Enabled :: bool
  Limit :: int
  Interval :: int

record ServerConfig =
  MaxConcurrentRPCs :: int
  WSPort :: int
  MaxBodySizeBytes :: int
  TimeoutSeconds :: int
  MaxUpstreamBatchSize :: int
  EnableRequestLog :: bool
  MaxRequestBodyLogLen :: int

record CacheConfig =
  Cache_Enabled :: bool
  BlockSyncRPCURL :: string
  NumBlockConfirmations :: int

text \<open>
  \<open>Authentication\<close> is a Go map that may be \<open>nil\<close>: \<open>None\<close> is the nil map, over which
  \<open>range\<close> runs no iteration.
\<close>

record Config =
  Backends :: "(string \<times> BackendConfig) list"
  BackendGroups :: "(string \<times> BackendGroupConfig) list"
  RPCMethodMappings :: "(string \<times> string) list"
  Authentication :: "(string \<times> string) list option"
  Redis :: RedisConfig
  RateLimit :: RateLimitConfig
  WhitelistErrorMessage :: string
  BatchConfig :: BatchConfig
  SenderRateLimit :: SenderRateLimitConfig
  Server :: ServerConfig
  BackendOptions :: BackendOptions
  WSBackendGroup :: string
  Cache :: CacheConfig
  WSMethodWhitelist :: "string list"

subsection \<open>The objects \<open>Start\<close> builds\<close>

datatype redis_Client = RedisClient string

datatype ethclient_Client = EthClient string

datatype tls_Certificate = Certificate string string

record tls_Config =
  RootCAs :: string
  Certificates :: "tls_Certificate list"

datatype BackendRateLimiter =
  NewRedisRateLimiter redis_Client
  | NewLocalBackendRateLimiter
  | noopBackendRateLimiter

datatype semaphore = NewWeighted int

datatype BackendOpt =
  WithTimeout int
  | WithMaxRetries int
  | WithMaxResponseSize int
  | WithOutOfServiceDuration int
  | WithMaxDegradedLatencyThreshold int
  | WithMaxLatencyThreshold int
  | WithMaxErrorRateThreshold real
  | WithMaxRPS int
  | WithMaxWSConns int
  | WithBasicAuth string string
  | WithTLSConfig tls_Config
  | WithStrippedTrailingXFF
  | WithProxydIP string
  | WithSkipPeerCountCheck bool

text \<open>\<open>NewBackend(name, rpcURL, wsURL, lim, rpcRequestSemaphore, opts...)\<close>\<close>

record Backend =
  Name :: string
  rpcURL :: string
  wsURL :: string
  rateLimiter :: BackendRateLimiter
  rpcSemaphore :: semaphore
  opts :: "BackendOpt list"

datatype ConsensusOpt =
  WithAsyncHandler_Noop
  | WithBanPeriod int
  | WithMaxUpdateThreshold int
  | WithMaxBlockLag int
  | WithMinPeerCount int

text \<open>
  \<open>NewConsensusPoller(bg, copts...)\<close>: the poller keeps a pointer to its group, here the
  group's name (one group object exists per name).
\<close>

record ConsensusPoller =
  backendGroup :: string
  copts :: "ConsensusOpt list"

record BackendGroup =
  BackendGroup_Name :: string
  BackendGroup_Backends :: "Backend list"
  Consensus :: "ConsensusPoller option"

datatype Cache =
  newMemoryCache
  | newRedisCache redis_Client
  | newCacheWithCompression Cache

text \<open>\<open>newLVC(client, cache, key, updater)\<close>; the updater is determined by the key.\<close>

record EthLastValueCache =
  lvc_client :: ethclient_Client
  lvc_cache :: Cache
  lvc_key :: string

text \<open>The reader closure that \<open>makeUint64LastValueFn\<close> returns, known by the cache it reads.\<close>

datatype Uint64LastValueFn = Uint64LastValueFn EthLastValueCache

text \<open>\<open>newRPCCache(cache, blockNumFn, gasPriceFn, numBlockConfirmations)\<close>\<close>

datatype RPCCache = newRPCCache Cache Uint64LastValueFn Uint64LastValueFn int

text \<open>
  The arguments of \<open>NewServer\<close>. The map of backend groups is passed by reference and its
  groups are assigned their pollers after the call, so the argument is the list of the
  groups' names; the group objects are in \<open>backendGroups\<close> of the result of \<open>Start\<close>.
\<close>

record NewServer_args =
  arg_backendGroups :: "string list"
  arg_wsBackendGroup :: "string option"
  arg_wsMethodWhitelist :: "string set"
  arg_rpcMethodMappings :: "(string \<times> string) list"
  arg_maxBodySize :: int
  arg_authenticatedPaths :: "(string \<times> string) list option"
  arg_timeout :: int
  arg_maxUpstreamBatchSize :: int
  arg_cache :: "RPCCache option"
  arg_rateLimitConfig :: RateLimitConfig
  arg_senderRateLimitConfig :: SenderRateLimitConfig
  arg_enableRequestLog :: bool
  arg_maxRequestBodyLogLen :: int
  arg_maxBatchSize :: int
  arg_redisClient :: "redis_Client option"

datatype Server = ServerHandle NewServer_args

subsection \<open>Collaborators from other files\<close>

record collaborators =
  ReadFromEnvOrConfig :: "string \<Rightarrow> error + string"
  NewRedisClient :: "string \<Rightarrow> error + redis_Client"
  CreateTLSClient :: "string \<Rightarrow> error + tls_Config"
  ParseKeyPair :: "string \<Rightarrow> string \<Rightarrow> error + tls_Certificate"
  Getenv :: "string \<Rightarrow> string"
  Dial :: "string \<Rightarrow> error + ethclient_Client"
  NewServer :: "NewServer_args \<Rightarrow> error + Server"

subsection \<open>The global error values\<close>

record globals =
  ErrOverRateLimit_Message :: string
  ErrMethodNotWhitelisted_Message :: string
  ErrTooManyBatchRequests_Message :: string

subsection \<open>\<open>secondsToDuration\<close> and \<open>configureBackendTLS\<close>\<close>

definition Second :: int where
  "Second = 1000000000"

definition MaxInt64 :: int where
  "MaxInt64 = 9223372036854775807"

text \<open>Two's-complement wrap-around of an \<open>int64\<close> result.\<close>

definition wrap64 :: "int \<Rightarrow> int" where
  "wrap64 x = (x + 9223372036854775808) mod 18446744073709551616 - 9223372036854775808"

definition secondsToDuration :: "int \<Rightarrow> int" where
  "secondsToDuration seconds = wrap64 (seconds * Second)"

definition configureBackendTLS :: "collaborators \<Rightarrow> BackendConfig \<Rightarrow> error + tls_Config option" where
  "configureBackendTLS d cfg =
     (if CAFile cfg = [] then Inr None
      else
        (case CreateTLSClient d (CAFile cfg) of
           Inl err \<Rightarrow> Inl err
         | Inr tlsConfig \<Rightarrow>
             (if ClientCertFile cfg \<noteq> [] \<and> ClientKeyFile cfg \<noteq> [] then
                (case ParseKeyPair d (ClientCertFile cfg) (ClientKeyFile cfg) of
                   Inl err \<Rightarrow> Inl err
                 | Inr cert \<Rightarrow> Inr (Some (tlsConfig\<lparr>Certificates := [cert]\<rparr>)))
              else Inr (Some tlsConfig))))"

subsection \<open>\<open>Start\<close>, lines 22-65: the first checks, the Redis client, the rate limiter\<close>

text \<open>Lines 32-36: the loop over the keys of \<open>config.Authentication\<close>.\<close>

fun authKeys :: "(string \<times> string) list \<Rightarrow> error + unit" where
  "authKeys [] = Inr ()"
| "authKeys ((authKey, alias) # rest) =
     (if authKey = ''none'' then Inl (Error ''cannot use none as an auth key'')
      else authKeys rest)"

text \<open>Lines 38-48: \<open>None\<close> is the nil client.\<close>

definition makeRedisClient :: "collaborators \<Rightarrow> Config \<Rightarrow> error + redis_Client option" where
  "makeRedisClient d config =
     (if URL (Redis config) \<noteq> [] then
        (case ReadFromEnvOrConfig d (URL (Redis config)) of
           Inl err \<Rightarrow> Inl err
         | Inr rURL \<Rightarrow>
             (case NewRedisClient d rURL of
                Inl err \<Rightarrow> Inl err
              | Inr c \<Rightarrow> Inr (Some c)))
      else Inr None)"

text \<open>Lines 54-65.\<close>

definition makeRateLimiter :: "Config \<Rightarrow> redis_Client option \<Rightarrow> BackendRateLimiter" where
  "makeRateLimiter config redisClient =
     (if EnableBackendRateLimiter (RateLimit config) then
        (case redisClient of
           Some c \<Rightarrow> NewRedisRateLimiter c
         | None \<Rightarrow> NewLocalBackendRateLimiter)
      else noopBackendRateLimiter)"

definition Start_beforeGlobals ::
  "collaborators \<Rightarrow> Config \<Rightarrow> error + (redis_Client option \<times> BackendRateLimiter)" where
  "Start_beforeGlobals d config =
     (if length (Backends config) = 0 then Inl (Error ''must define at least one backend'')
      else if length (BackendGroups config) = 0 then
        Inl (Error ''must define at least one backend group'')
      else if length (RPCMethodMappings config) = 0 then
        Inl (Error ''must define at least one RPC method mapping'')
      else
        (case authKeys (case Authentication config of None \<Rightarrow> [] | Some a \<Rightarrow> a) of
           Inl err \<Rightarrow> Inl err
         | Inr _ \<Rightarrow>
             (case makeRedisClient d config of
                Inl err \<Rightarrow> Inl err
              | Inr redisClient \<Rightarrow>
                  (if redisClient = None \<and> UseRedis (RateLimit config) then
                     Inl (Error ''must specify a Redis URL if UseRedis is true in rate limit config'')
                   else Inr (redisClient, makeRateLimiter config redisClient)))))"

subsection \<open>\<open>Start\<close>, lines 67-79: the configured messages are assigned to the globals\<close>

definition setErrorMessages :: "Config \<Rightarrow> globals \<Rightarrow> globals" where
  "setErrorMessages config g =
     (let g1 = (if RateLimit_ErrorMessage (RateLimit config) \<noteq> []
                then g\<lparr>ErrOverRateLimit_Message := RateLimit_ErrorMessage (RateLimit config)\<rparr>
                else g);
          g2 = (if WhitelistErrorMessage config \<noteq> []
                then g1\<lparr>ErrMethodNotWhitelisted_Message := WhitelistErrorMessage config\<rparr>
                else g1)
      in (if BatchConfig_ErrorMessage (BatchConfig config) \<noteq> []
          then g2\<lparr>ErrTooManyBatchRequests_Message := BatchConfig_ErrorMessage (BatchConfig config)\<rparr>
          else g2))"

subsection \<open>\<open>Start\<close>, lines 81-166: sender rate limit, semaphore, backends\<close>

text \<open>Lines 81-88.\<close>

definition senderRateLimitCheck :: "SenderRateLimitConfig \<Rightarrow> error + unit" where
  "senderRateLimitCheck srl =
     (if SenderRateLimit_Enabled srl then
        (if Limit srl \<le> 0 then Inl (Error ''limit in sender_rate_limit must be > 0'')
         else if Interval srl < Second then
           Inl (Error ''interval in sender_rate_limit must be >= 1s'')
         else Inr ())
      else Inr ())"

text \<open>Lines 90-94.\<close>

definition makeSemaphore :: "Config \<Rightarrow> semaphore" where
  "makeSemaphore config =
     (let maxConcurrentRPCs = MaxConcurrentRPCs (Server config)
      in NewWeighted (if maxConcurrentRPCs = 0 then MaxInt64 else maxConcurrentRPCs))"

text \<open>Lines 113-134: the options taken from \<open>config.BackendOptions\<close>.\<close>

definition sharedOpts :: "BackendOptions \<Rightarrow> BackendOpt list" where
  "sharedOpts bo =
     (if ResponseTimeoutSeconds bo \<noteq> 0
      then [WithTimeout (secondsToDuration (ResponseTimeoutSeconds bo))] else [])
     @ (if MaxRetries bo \<noteq> 0 then [WithMaxRetries (MaxRetries bo)] else [])
     @ (if MaxResponseSizeBytes bo \<noteq> 0 then [WithMaxResponseSize (MaxResponseSizeBytes bo)] else [])
     @ (if OutOfServiceSeconds bo \<noteq> 0
        then [WithOutOfServiceDuration (secondsToDuration (OutOfServiceSeconds bo))] else [])
     @ (if MaxDegradedLatencyThreshold bo > 0
        then [WithMaxDegradedLatencyThreshold (MaxDegradedLatencyThreshold bo)] else [])
     @ (if MaxLatencyThreshold bo > 0 then [WithMaxLatencyThreshold (MaxLatencyThreshold bo)] else [])
     @ (if MaxErrorRateThreshold bo > 0
        then [WithMaxErrorRateThreshold (MaxErrorRateThreshold bo)] else [])"

text \<open>Lines 99-162: the body of the loop over \<open>config.Backends\<close>.\<close>

definition makeBackend ::
  "collaborators \<Rightarrow> Config \<Rightarrow> BackendRateLimiter \<Rightarrow> semaphore \<Rightarrow> string \<Rightarrow> BackendConfig
     \<Rightarrow> error + Backend" where
  "makeBackend d config lim' rpcRequestSemaphore name cfg =
     (case ReadFromEnvOrConfig d (RPCURL cfg) of
        Inl err \<Rightarrow> Inl err
      | Inr rpcURL' \<Rightarrow>
     (case ReadFromEnvOrConfig d (WSURL cfg) of
        Inl err \<Rightarrow> Inl err
      | Inr wsURL' \<Rightarrow>
     (if rpcURL' = [] then Inl (Error (''must define an RPC URL for backend '' @ name))
      else
     (case (if Password cfg \<noteq> [] then
              (case ReadFromEnvOrConfig d (Password cfg) of
                 Inl err \<Rightarrow> Inl err
               | Inr passwordVal \<Rightarrow> Inr [WithBasicAuth (Username cfg) passwordVal])
            else Inr []) of
        Inl err \<Rightarrow> Inl err
      | Inr authOpts \<Rightarrow>
     (case configureBackendTLS d cfg of
        Inl err \<Rightarrow> Inl err
      | Inr tlsConfig \<Rightarrow>
          Inr \<lparr>Name = name, rpcURL = rpcURL', wsURL = wsURL', rateLimiter = lim',
               rpcSemaphore = rpcRequestSemaphore,
               opts = sharedOpts (BackendOptions config)
                 @ (if MaxRPS cfg \<noteq> 0 then [WithMaxRPS (MaxRPS cfg)] else [])
                 @ (if MaxWSConns cfg \<noteq> 0 then [WithMaxWSConns (MaxWSConns cfg)] else [])
                 @ authOpts
                 @ (case tlsConfig of None \<Rightarrow> [] | Some t \<Rightarrow> [WithTLSConfig t])
                 @ (if StripTrailingXFF cfg then [WithStrippedTrailingXFF] else [])
                 @ [WithProxydIP (Getenv d ''PROXYD_IP''),
                    WithSkipPeerCountCheck (SkipPeerCountCheck cfg)]\<rparr>)))))"

text \<open>Lines 96-166: the loop, with \<open>backendNames\<close> and \<open>backendsByName\<close> as accumulators.\<close>

fun makeBackends ::
  "collaborators \<Rightarrow> Config \<Rightarrow> BackendRateLimiter \<Rightarrow> semaphore \<Rightarrow> (string \<times> BackendConfig) list
     \<Rightarrow> string list \<Rightarrow> (string \<times> Backend) list
     \<Rightarrow> error + (string list \<times> (string \<times> Backend) list)" where
  "makeBackends d config lim' sem [] backendNames backendsByName =
     Inr (backendNames, backendsByName)"
| "makeBackends d config lim' sem ((name, cfg) # rest) backendNames backendsByName =
     (case makeBackend d config lim' sem name cfg of
        Inl err \<Rightarrow> Inl err
      | Inr back \<Rightarrow>
          makeBackends d config lim' sem rest (backendNames @ [name])
            (AList.update name back backendsByName))"

subsection \<open>\<open>Start\<close>, lines 168-213: groups, the WS group, the method mappings, the secrets\<close>

text \<open>Lines 170-176: the inner loop over \<open>bg.Backends\<close>.\<close>

fun lookupBackends ::
  "(string \<times> Backend) list \<Rightarrow> string list \<Rightarrow> Backend list \<Rightarrow> error + Backend list" where
  "lookupBackends backendsByName [] backends = Inr backends"
| "lookupBackends backendsByName (bName # rest) backends =
     (case map_of backendsByName bName of
        None \<Rightarrow> Inl (Error (''backend '' @ bName @ '' is not defined''))
      | Some b \<Rightarrow> lookupBackends backendsByName rest (backends @ [b]))"

text \<open>Lines 168-182.\<close>

fun makeBackendGroups ::
  "(string \<times> Backend) list \<Rightarrow> (string \<times> BackendGroupConfig) list
     \<Rightarrow> (string \<times> BackendGroup) list \<Rightarrow> error + (string \<times> BackendGroup) list" where
  "makeBackendGroups backendsByName [] backendGroups = Inr backendGroups"
| "makeBackendGroups backendsByName ((bgName, bg) # rest) backendGroups =
     (case lookupBackends backendsByName (BackendGroupConfig_Backends bg) [] of
        Inl err \<Rightarrow> Inl err
      | Inr backends \<Rightarrow>
          makeBackendGroups backendsByName rest
            (AList.update bgName
               \<lparr>BackendGroup_Name = bgName, BackendGroup_Backends = backends, Consensus = None\<rparr>
               backendGroups))"

text \<open>Lines 184-194: the WS group, as the name of the group object; \<open>None\<close> is nil.\<close>

definition findWSBackendGroup ::
  "Config \<Rightarrow> (string \<times> BackendGroup) list \<Rightarrow> error + string option" where
  "findWSBackendGroup config backendGroups =
     (case (if WSBackendGroup config \<noteq> [] then
              (case map_of backendGroups (WSBackendGroup config) of
                 None \<Rightarrow>
                   Inl (Error (''ws backend group '' @ WSBackendGroup config @ '' does not exist''))
               | Some g \<Rightarrow> Inr (Some (WSBackendGroup config)))
            else Inr None) of
        Inl err \<Rightarrow> Inl err
      | Inr wsBackendGroup \<Rightarrow>
          (if wsBackendGroup = None \<and> WSPort (Server config) \<noteq> 0 then
             Inl (Error ''a ws port was defined, but no ws group was defined'')
           else Inr wsBackendGroup))"

text \<open>Lines 196-200.\<close>

fun checkMappings :: "(string \<times> BackendGroup) list \<Rightarrow> (string \<times> string) list \<Rightarrow> error + unit" where
  "checkMappings backendGroups [] = Inr ()"
| "checkMappings backendGroups ((method, bg) # rest) =
     (case map_of backendGroups bg of
        None \<Rightarrow> Inl (Error (''undefined backend group '' @ bg))
      | Some g \<Rightarrow> checkMappings backendGroups rest)"

text \<open>Lines 206-212.\<close>

fun resolveSecrets ::
  "collaborators \<Rightarrow> (string \<times> string) list \<Rightarrow> (string \<times> string) list
     \<Rightarrow> error + (string \<times> string) list" where
  "resolveSecrets d [] resolvedAuth = Inr resolvedAuth"
| "resolveSecrets d ((secret, alias) # rest) resolvedAuth =
     (case ReadFromEnvOrConfig d secret of
        Inl err \<Rightarrow> Inl err
      | Inr resolvedSecret \<Rightarrow>
          resolveSecrets d rest (AList.update resolvedSecret alias resolvedAuth))"

text \<open>Lines 202-213.\<close>

definition makeResolvedAuth ::
  "collaborators \<Rightarrow> Config \<Rightarrow> error + (string \<times> string) list option" where
  "makeResolvedAuth d config =
     (case Authentication config of
        None \<Rightarrow> Inr None
      | Some a \<Rightarrow>
          (case resolveSecrets d a [] of
             Inl err \<Rightarrow> Inl err
           | Inr resolvedAuth \<Rightarrow> Inr (Some resolvedAuth)))"

subsection \<open>\<open>makeUint64LastValueFn\<close> and \<open>Start\<close>, lines 215-251: the RPC cache\<close>

text \<open>
  Lines 389-392 and 408-423: the last-value cache that is created and started, and the
  reader closure over it. What a call of the closure returns is \<open>callUint64LastValueFn\<close>
  below.
\<close>

definition makeUint64LastValueFn ::
  "ethclient_Client \<Rightarrow> Cache \<Rightarrow> string \<Rightarrow> EthLastValueCache \<times> Uint64LastValueFn" where
  "makeUint64LastValueFn client cache key =
     (let lvc = \<lparr>lvc_client = client, lvc_cache = cache, lvc_key = key\<rparr>
      in (lvc, Uint64LastValueFn lvc))"

definition makeGetLatestBlockNumFn ::
  "ethclient_Client \<Rightarrow> Cache \<Rightarrow> EthLastValueCache \<times> Uint64LastValueFn" where
  "makeGetLatestBlockNumFn client cache = makeUint64LastValueFn client cache ''lvc:block_number''"

definition makeGetLatestGasPriceFn ::
  "ethclient_Client \<Rightarrow> Cache \<Rightarrow> EthLastValueCache \<times> Uint64LastValueFn" where
  "makeGetLatestGasPriceFn client cache = makeUint64LastValueFn client cache ''lvc:gas_price''"

text \<open>Lines 215-251: the result is \<open>(rpcCache, blockNumLVC, gasPriceLVC)\<close>, \<open>None\<close> for nil.\<close>

definition makeRPCCache ::
  "collaborators \<Rightarrow> Config \<Rightarrow> redis_Client option
     \<Rightarrow> error + (RPCCache option \<times> EthLastValueCache option \<times> EthLastValueCache option)" where
  "makeRPCCache d config redisClient =
     (if Cache_Enabled (Cache config) then
        (if BlockSyncRPCURL (Cache config) = [] then
           Inl (Error ''block sync node required for caching'')
         else
           (case ReadFromEnvOrConfig d (BlockSyncRPCURL (Cache config)) of
              Inl err \<Rightarrow> Inl err
            | Inr blockSyncRPCURL \<Rightarrow>
                (let cache = (case redisClient of
                                None \<Rightarrow> newMemoryCache
                              | Some c \<Rightarrow> newRedisCache c)
                 in (case Dial d blockSyncRPCURL of
                       Inl err \<Rightarrow> Inl err
                     | Inr ethClient \<Rightarrow>
                         (let (blockNumLVC, blockNumFn) = makeGetLatestBlockNumFn ethClient cache;
                              (gasPriceLVC, gasPriceFn) = makeGetLatestGasPriceFn ethClient cache
                          in Inr (Some (newRPCCache (newCacheWithCompression cache) blockNumFn
                                          gasPriceFn (NumBlockConfirmations (Cache config))),
                                  Some blockNumLVC, Some gasPriceLVC))))))
      else Inr (None, None, None))"

subsection \<open>\<open>Start\<close>, lines 253-272: the server\<close>

definition makeServer ::
  "collaborators \<Rightarrow> Config \<Rightarrow> (string \<times> BackendGroup) list \<Rightarrow> string option
     \<Rightarrow> (string \<times> string) list option \<Rightarrow> RPCCache option \<Rightarrow> redis_Client option
     \<Rightarrow> error + Server" where
  "makeServer d config backendGroups wsBackendGroup resolvedAuth rpcCache redisClient =
     (case NewServer d
             \<lparr>arg_backendGroups = map fst backendGroups,
              arg_wsBackendGroup = wsBackendGroup,
              arg_wsMethodWhitelist = set (WSMethodWhitelist config),
              arg_rpcMethodMappings = RPCMethodMappings config,
              arg_maxBodySize = MaxBodySizeBytes (Server config),
              arg_authenticatedPaths = resolvedAuth,
              arg_timeout = secondsToDuration (TimeoutSeconds (Server config)),
              arg_maxUpstreamBatchSize = MaxUpstreamBatchSize (Server config),
              arg_cache = rpcCache,
              arg_rateLimitConfig = RateLimit config,
              arg_senderRateLimitConfig = SenderRateLimit config,
              arg_enableRequestLog = EnableRequestLog (Server config),
              arg_maxRequestBodyLogLen = MaxRequestBodyLogLen (Server config),
              arg_maxBatchSize = MaxSize (BatchConfig config),
              arg_redisClient = redisClient\<rparr> of
        Inl err \<Rightarrow> Inl (Wrap ''error creating server: '' err)
      | Inr srv \<Rightarrow> Inr srv)"

subsection \<open>\<open>Start\<close>, lines 315-341: the consensus pollers\<close>

text \<open>Lines 320-336.\<close>

definition consensusOpts :: "BackendGroupConfig \<Rightarrow> ConsensusOpt list" where
  "consensusOpts bgcfg =
     (if ConsensusAsyncHandler bgcfg = ''noop'' then [WithAsyncHandler_Noop] else [])
     @ (if ConsensusBanPeriod bgcfg > 0 then [WithBanPeriod (ConsensusBanPeriod bgcfg)] else [])
     @ (if ConsensusMaxUpdateThreshold bgcfg > 0
        then [WithMaxUpdateThreshold (ConsensusMaxUpdateThreshold bgcfg)] else [])
     @ (if ConsensusMaxBlockLag bgcfg > 0 then [WithMaxBlockLag (ConsensusMaxBlockLag bgcfg)] else [])
     @ (if ConsensusMinPeerCount bgcfg > 0
        then [WithMinPeerCount (ConsensusMinPeerCount bgcfg)] else [])"

text \<open>
  Lines 315-341: the loop over the group objects. \<open>config.BackendGroups[bgName]\<close> of a
  missing name is a nil pointer, and reading its field panics.
\<close>

fun makePollers ::
  "(string \<times> BackendGroupConfig) list \<Rightarrow> (string \<times> BackendGroup) list
     \<Rightarrow> error + (string \<times> BackendGroup) list" where
  "makePollers cfgs [] = Inr []"
| "makePollers cfgs ((bgName, bg) # rest) =
     (case map_of cfgs bgName of
        None \<Rightarrow> Inl (Panic ''invalid memory address or nil pointer dereference'')
      | Some bgcfg \<Rightarrow>
          (case makePollers cfgs rest of
             Inl err \<Rightarrow> Inl err
           | Inr rest' \<Rightarrow>
               Inr ((bgName,
                     if ConsensusAware bgcfg
                     then bg\<lparr>Consensus :=
                            Some \<lparr>backendGroup = bgName, copts = consensusOpts bgcfg\<rparr>\<rparr>
                     else bg) # rest')))"

subsection \<open>\<open>Start\<close>\<close>

text \<open>
  What \<open>Start\<close> returns on success: the server, the variables its shutdown function
  closes over (\<open>blockNumLVC\<close>, \<open>gasPriceLVC\<close>, \<open>lim\<close>, \<open>backendNames\<close>), and the objects
  it has built and handed to the backends and the server: the group objects, the
  semaphore and the RPC cache.
\<close>

record Started =
  st_srv :: Server
  st_blockNumLVC :: "EthLastValueCache option"
  st_gasPriceLVC :: "EthLastValueCache option"
  st_lim :: BackendRateLimiter
  st_backendNames :: "string list"
  st_backendGroups :: "(string \<times> BackendGroup) list"
  st_rpcRequestSemaphore :: semaphore
  st_rpcCache :: "RPCCache option"

text \<open>Lines 81-361.\<close>

definition Start_afterGlobals ::
  "collaborators \<Rightarrow> Config \<Rightarrow> redis_Client option \<Rightarrow> BackendRateLimiter \<Rightarrow> error + Started" where
  "Start_afterGlobals d config redisClient lim' =
     (case senderRateLimitCheck (SenderRateLimit config) of
        Inl err \<Rightarrow> Inl err
      | Inr _ \<Rightarrow>
     (let rpcRequestSemaphore = makeSemaphore config in
     (case makeBackends d config lim' rpcRequestSemaphore (Backends config) [] [] of
        Inl err \<Rightarrow> Inl err
      | Inr (backendNames, backendsByName) \<Rightarrow>
     (case makeBackendGroups backendsByName (BackendGroups config) [] of
        Inl err \<Rightarrow> Inl err
      | Inr backendGroups \<Rightarrow>
     (case findWSBackendGroup config backendGroups of
        Inl err \<Rightarrow> Inl err
      | Inr wsBackendGroup \<Rightarrow>
     (case checkMappings backendGroups (RPCMethodMappings config) of
        Inl err \<Rightarrow> Inl err
      | Inr _ \<Rightarrow>
     (case makeResolvedAuth d config of
        Inl err \<Rightarrow> Inl err
      | Inr resolvedAuth \<Rightarrow>
     (case makeRPCCache d config redisClient of
        Inl err \<Rightarrow> Inl err
      | Inr (rpcCache, blockNumLVC, gasPriceLVC) \<Rightarrow>
     (case makeServer d config backendGroups wsBackendGroup resolvedAuth rpcCache redisClient of
        Inl err \<Rightarrow> Inl err
      | Inr srv \<Rightarrow>
     (case makePollers (BackendGroups config) backendGroups of
        Inl err \<Rightarrow> Inl err
      | Inr backendGroups' \<Rightarrow>
          Inr \<lparr>st_srv = srv, st_blockNumLVC = blockNumLVC, st_gasPriceLVC = gasPriceLVC,
               st_lim = lim', st_backendNames = backendNames,
               st_backendGroups = backendGroups',
               st_rpcRequestSemaphore = rpcRequestSemaphore,
               st_rpcCache = rpcCache\<rparr>))))))))))"

text \<open>
  \<open>Start\<close>: the globals are assigned once the checks of lines 22-65 have passed, and stay
  assigned when a later step fails.
\<close>

definition Start :: "collaborators \<Rightarrow> globals \<Rightarrow> Config \<Rightarrow> globals \<times> (error + Started)" where
  "Start d g config =
     (case Start_beforeGlobals d config of
        Inl err \<Rightarrow> (g, Inl err)
      | Inr (redisClient, lim') \<Rightarrow>
          (setErrorMessages config g, Start_afterGlobals d config redisClient lim'))"

subsection \<open>The reader returned by \<open>makeUint64LastValueFn\<close>\<close>

text \<open>
  \<open>strconv.ParseUint(s, 10, 64)\<close> of Go's standard library, for base 10 and 64 bits:
  the empty string and any byte that is not a decimal digit are syntax errors (a sign and
  an underscore included), and a value beyond 64 bits is a range error, returned with
  the largest \<open>uint64\<close>. The loop carries \<open>n\<close>; \<open>s0\<close> is the whole input, for the
  error value.
\<close>

definition maxUint64 :: "64 word" where
  "maxUint64 = - 1"

definition cutoff :: "64 word" where
  "cutoff = maxUint64 div 10 + 1"

definition isDigit :: "char \<Rightarrow> bool" where
  "isDigit c = (48 \<le> (of_char c :: nat) \<and> (of_char c :: nat) \<le> 57)"

fun ParseUint_loop :: "string \<Rightarrow> string \<Rightarrow> 64 word \<Rightarrow> 64 word \<times> error option" where
  "ParseUint_loop s0 [] n = (n, None)"
| "ParseUint_loop s0 (c # cs) n =
     (if isDigit c then
        (if n \<ge> cutoff then (maxUint64, Some (NumError ''ParseUint'' s0 ErrRange))
         else
           (let n' = n * 10;
                n1 = n' + word_of_nat (of_char c - 48)
            in if n1 < n' \<or> n1 > maxUint64
               then (maxUint64, Some (NumError ''ParseUint'' s0 ErrRange))
               else ParseUint_loop s0 cs n1))
      else (0, Some (NumError ''ParseUint'' s0 ErrSyntax)))"

definition ParseUint :: "string \<Rightarrow> 64 word \<times> error option" where
  "ParseUint s =
     (if s = [] then (0, Some (NumError ''ParseUint'' s ErrSyntax))
      else ParseUint_loop s s 0)"

text \<open>
  Lines 392-405: a call of the closure. \<open>Read\<close> is what \<open>lvc.Read(ctx)\<close> returns for the
  cache (the method is in another file); the result is Go's pair \<open>(uint64, error)\<close>,
  \<open>None\<close> for the nil error.
\<close>

definition callUint64LastValueFn ::
  "(EthLastValueCache \<Rightarrow> error + string) \<Rightarrow> Uint64LastValueFn \<Rightarrow> 64 word \<times> error option" where
  "callUint64LastValueFn Read fn =
     (case fn of Uint64LastValueFn lvc \<Rightarrow>
        (case Read lvc of
           Inl err \<Rightarrow> (0, Some err)
         | Inr val \<Rightarrow>
             (if val = [] then (0, Some (Error (lvc_key lvc @ '' is unavailable'')))
              else
                (case ParseUint val of
                   (valueUint, Some err) \<Rightarrow> (0, Some err)
                 | (valueUint, None) \<Rightarrow> (valueUint, None)))))"

text \<open>
  A string is a decimal \<open>uint64\<close> when it is a non-empty run of decimal digits whose
  value is below \<open>2 ^ 64\<close>.
\<close>

definition decimalValue :: "string \<Rightarrow> nat" where
  "decimalValue s = foldl (\<lambda>n c. 10 * n + (of_char c - 48)) 0 s"

definition isDecimalUint64 :: "string \<Rightarrow> bool" where
  "isDecimalUint64 s = (s \<noteq> [] \<and> list_all isDigit s \<and> decimalValue s < 2 ^ 64)"

subsection \<open>Environment substitution\<close>



subsection \<open>A running example\<close>

text \<open>
  One backend, one group and one method mapping, with every other setting at Go's zero
  value; collaborators that succeed; and the messages the globals hold before \<open>Start\<close>.
\<close>

definition collaborators_ok :: collaborators where
  "collaborators_ok =
     \<lparr>ReadFromEnvOrConfig = (\<lambda>v. Inr v),
      NewRedisClient = (\<lambda>url. Inr (RedisClient url)),
      CreateTLSClient = (\<lambda>ca. Inr \<lparr>RootCAs = ca, Certificates = []\<rparr>),
      ParseKeyPair = (\<lambda>c k. Inr (Certificate c k)),
      Getenv = (\<lambda>name. []),
      Dial = (\<lambda>url. Inr (EthClient url)),
      NewServer = (\<lambda>args. Inr (ServerHandle args))\<rparr>"

definition globals0 :: globals where
  "globals0 =
     \<lparr>ErrOverRateLimit_Message = ''over rate limit'',
      ErrMethodNotWhitelisted_Message = ''rpc method is not whitelisted'',
      ErrTooManyBatchRequests_Message = ''too many RPC calls in batch request''\<rparr>"

definition backend0 :: BackendConfig where
  "backend0 =
     \<lparr>Username = [], Password = [], RPCURL = ''http://node:8545'', WSURL = [],
      MaxRPS = 0, MaxWSConns = 0, CAFile = [], ClientCertFile = [], ClientKeyFile = [],
      StripTrailingXFF = False, SkipPeerCountCheck = False\<rparr>"

definition group0 :: BackendGroupConfig where
  "group0 =
     \<lparr>BackendGroupConfig_Backends = [''node''], ConsensusAware = False,
      ConsensusAsyncHandler = [], ConsensusBanPeriod = 0, ConsensusMaxUpdateThreshold = 0,
      ConsensusMaxBlockLag = 0, ConsensusMinPeerCount = 0\<rparr>"

definition config0 :: Config where
  "config0 =
     \<lparr>Backends = [(''node'', backend0)],
      BackendGroups = [(''main'', group0)],
      RPCMethodMappings = [(''eth_chainId'', ''main'')],
      Authentication = None,
      Redis = \<lparr>URL = []\<rparr>,
      RateLimit = \<lparr>UseRedis = False, EnableBackendRateLimiter = False,
                   RateLimit_ErrorMessage = []\<rparr>,
      WhitelistErrorMessage = [],
      BatchConfig = \<lparr>MaxSize = 0, BatchConfig_ErrorMessage = []\<rparr>,
      SenderRateLimit = \<lparr>SenderRateLimit_Enabled = False, Limit = 0, Interval = 0\<rparr>,
      Server = \<lparr>MaxConcurrentRPCs = 0, WSPort = 0, MaxBodySizeBytes = 0, TimeoutSeconds = 0,
                MaxUpstreamBatchSize = 0, EnableRequestLog = False, MaxRequestBodyLogLen = 0\<rparr>,
      BackendOptions = \<lparr>ResponseTimeoutSeconds = 0, MaxRetries = 0, MaxResponseSizeBytes = 0,
                        OutOfServiceSeconds = 0, MaxDegradedLatencyThreshold = 0,
                        MaxLatencyThreshold = 0, MaxErrorRateThreshold = 0\<rparr>,
      WSBackendGroup = [],
      Cache = \<lparr>Cache_Enabled = False, BlockSyncRPCURL = [], NumBlockConfirmations = 0\<rparr>,
      WSMethodWhitelist = []\<rparr>"

text \<open>Configurations that break one start-up rule each.\<close>

definition config_noBackends :: Config where
  "config_noBackends = config0\<lparr>Backends := []\<rparr>"

definition config_noGroups :: Config where
  "config_noGroups = config0\<lparr>BackendGroups := []\<rparr>"

definition config_noMappings :: Config where
  "config_noMappings = config0\<lparr>RPCMethodMappings := []\<rparr>"

definition config_undefinedBackend :: Config where
  "config_undefinedBackend =
     config0\<lparr>BackendGroups :=
       [(''main'', group0\<lparr>BackendGroupConfig_Backends := [''node'', ''ghost'']\<rparr>)]\<rparr>"

definition config_undefinedGroup :: Config where
  "config_undefinedGroup =
     config0\<lparr>RPCMethodMappings := [(''eth_chainId'', ''main''), (''eth_call'', ''archive'')]\<rparr>"

definition config_emptyURL :: Config where
  "config_emptyURL = config0\<lparr>Backends := [(''node'', backend0\<lparr>RPCURL := []\<rparr>)]\<rparr>"

text \<open>Authentication maps: \<open>none\<close> as an alias, and \<open>none\<close> as a secret.\<close>

definition config_aliasNone :: Config where
  "config_aliasNone = config0\<lparr>Authentication := Some [(''secret'', ''none'')]\<rparr>"

definition config_keyNone :: Config where
  "config_keyNone = config0\<lparr>Authentication := Some [(''secret'', ''alice''), (''none'', ''bob'')]\<rparr>"

text \<open>Sender rate limits that are enabled.\<close>

definition config_senderLimit0 :: Config where
  "config_senderLimit0 =
     config0\<lparr>SenderRateLimit :=
       \<lparr>SenderRateLimit_Enabled = True, Limit = 0, Interval = 2000000000\<rparr>\<rparr>"

definition config_senderShortInterval :: Config where
  "config_senderShortInterval =
     config0\<lparr>SenderRateLimit :=
       \<lparr>SenderRateLimit_Enabled = True, Limit = 5, Interval = 999999999\<rparr>\<rparr>"

definition config_senderOk :: Config where
  "config_senderOk =
     config0\<lparr>SenderRateLimit :=
       \<lparr>SenderRateLimit_Enabled = True, Limit = 5, Interval = 1000000000\<rparr>\<rparr>"

text \<open>Configured error messages, in two configurations that differ.\<close>

definition config_messages :: Config where
  "config_messages =
     config0\<lparr>RateLimit := \<lparr>UseRedis = False, EnableBackendRateLimiter = False,
                              RateLimit_ErrorMessage = ''slow down''\<rparr>,
             WhitelistErrorMessage := ''method not allowed'',
             BatchConfig := \<lparr>MaxSize = 10, BatchConfig_ErrorMessage = ''batch too big''\<rparr>\<rparr>"

definition config_messages' :: Config where
  "config_messages' =
     config0\<lparr>RateLimit := \<lparr>UseRedis = False, EnableBackendRateLimiter = False,
                              RateLimit_ErrorMessage = ''try again later''\<rparr>\<rparr>"

text \<open>Rate limiter settings.\<close>

definition config_useRedisNoURL :: Config where
  "config_useRedisNoURL =
     config0\<lparr>RateLimit := \<lparr>UseRedis = True, EnableBackendRateLimiter = True,
                              RateLimit_ErrorMessage = []\<rparr>\<rparr>"

definition config_localLimiter :: Config where
  "config_localLimiter =
     config0\<lparr>RateLimit := \<lparr>UseRedis = False, EnableBackendRateLimiter = True,
                              RateLimit_ErrorMessage = []\<rparr>\<rparr>"

definition config_redisLimiter :: Config where
  "config_redisLimiter =
     config0\<lparr>Redis := \<lparr>URL = ''redis://cache:6379''\<rparr>,
             RateLimit := \<lparr>UseRedis = True, EnableBackendRateLimiter = True,
                              RateLimit_ErrorMessage = []\<rparr>\<rparr>"

text \<open>Caching, with and without Redis.\<close>

definition config_cacheNoSync :: Config where
  "config_cacheNoSync =
     config0\<lparr>Cache := \<lparr>Cache_Enabled = True, BlockSyncRPCURL = [], NumBlockConfirmations = 4\<rparr>\<rparr>"

definition config_cacheMemory :: Config where
  "config_cacheMemory =
     config0\<lparr>Cache := \<lparr>Cache_Enabled = True, BlockSyncRPCURL = ''http://sync:8545'',
                          NumBlockConfirmations = 4\<rparr>\<rparr>"

definition config_cacheRedis :: Config where
  "config_cacheRedis = config_cacheMemory\<lparr>Redis := \<lparr>URL = ''redis://cache:6379''\<rparr>\<rparr>"

text \<open>Two groups over the same backend, one of them consensus aware.\<close>

definition group_consensus :: BackendGroupConfig where
  "group_consensus =
     \<lparr>BackendGroupConfig_Backends = [''node''], ConsensusAware = True,
      ConsensusAsyncHandler = ''noop'', ConsensusBanPeriod = 60000000000,
      ConsensusMaxUpdateThreshold = 0, ConsensusMaxBlockLag = 8, ConsensusMinPeerCount = 3\<rparr>"

definition config_consensus :: Config where
  "config_consensus =
     config0\<lparr>BackendGroups := [(''main'', group_consensus), (''archive'', group0)]\<rparr>"

text \<open>A last-value cache for the block number, and an environment with a variable whose
  value is a reference to another variable.\<close>

definition lvc0 :: EthLastValueCache where
  "lvc0 = fst (makeGetLatestBlockNumFn (EthClient ''http://sync:8545'') newMemoryCache)"


section \<open>Properties of \<open>Start\<close>\<close>

subsection \<open>What a successful \<open>Start\<close> has gone through\<close>

lemma Start_Inr:
  "snd (Start d g config) = Inr r \<longleftrightarrow>
     (\<exists>redisClient l. Start_beforeGlobals d config = Inr (redisClient, l)
        \<and> Start_afterGlobals d config redisClient l = Inr r)"
  by (auto simp: Start_def split: sum.splits)

lemma Start_beforeGlobals_Inr:
  "Start_beforeGlobals d config = Inr (redisClient, l) \<longleftrightarrow>
     Backends config \<noteq> [] \<and> BackendGroups config \<noteq> [] \<and> RPCMethodMappings config \<noteq> []
     \<and> authKeys (case Authentication config of None \<Rightarrow> [] | Some a \<Rightarrow> a) = Inr ()
     \<and> makeRedisClient d config = Inr redisClient
     \<and> \<not> (redisClient = None \<and> UseRedis (RateLimit config))
     \<and> l = makeRateLimiter config redisClient"
  by (auto simp: Start_beforeGlobals_def split: sum.splits)

lemma Start_afterGlobals_Inr:
  "Start_afterGlobals d config redisClient l = Inr r \<longleftrightarrow>
     (\<exists>backendNames backendsByName backendGroups wsBackendGroup resolvedAuth rpcCache
        blockNumLVC gasPriceLVC srv backendGroups'.
        senderRateLimitCheck (SenderRateLimit config) = Inr ()
        \<and> makeBackends d config l (makeSemaphore config) (Backends config) [] []
            = Inr (backendNames, backendsByName)
        \<and> makeBackendGroups backendsByName (BackendGroups config) [] = Inr backendGroups
        \<and> findWSBackendGroup config backendGroups = Inr wsBackendGroup
        \<and> checkMappings backendGroups (RPCMethodMappings config) = Inr ()
        \<and> makeResolvedAuth d config = Inr resolvedAuth
        \<and> makeRPCCache d config redisClient = Inr (rpcCache, blockNumLVC, gasPriceLVC)
        \<and> makeServer d config backendGroups wsBackendGroup resolvedAuth rpcCache redisClient
            = Inr srv
        \<and> makePollers (BackendGroups config) backendGroups = Inr backendGroups'
        \<and> r = \<lparr>st_srv = srv, st_blockNumLVC = blockNumLVC, st_gasPriceLVC = gasPriceLVC,
               st_lim = l, st_backendNames = backendNames,
               st_backendGroups = backendGroups',
               st_rpcRequestSemaphore = makeSemaphore config,
               st_rpcCache = rpcCache\<rparr>)"
  by (auto simp: Start_afterGlobals_def Let_def split: sum.splits prod.splits)

lemma makeBackend_Inr:
  "makeBackend d config l sem name cfg = Inr b \<Longrightarrow>
     (\<exists>u. ReadFromEnvOrConfig d (RPCURL cfg) = Inr u \<and> u \<noteq> [])
     \<and> Name b = name \<and> rateLimiter b = l \<and> rpcSemaphore b = sem"
  by (auto simp: makeBackend_def split: sum.splits if_splits)

lemma makeBackends_Inr:
  "makeBackends d config l sem bs names byName = Inr (names', byName') \<Longrightarrow>
     fst ` set byName' = fst ` set byName \<union> fst ` set bs
     \<and> (\<forall>(n, cfg) \<in> set bs. \<exists>u. ReadFromEnvOrConfig d (RPCURL cfg) = Inr u \<and> u \<noteq> [])"
proof (induction bs arbitrary: names byName)
  case Nil
  then show ?case by simp
next
  case (Cons a bs)
  obtain name cfg where a: "a = (name, cfg)" by (cases a)
  from Cons.prems a obtain bk where
    b: "makeBackend d config l sem name cfg = Inr bk" and
    r: "makeBackends d config l sem bs (names @ [name]) (AList.update name bk byName)
          = Inr (names', byName')"
    by (auto split: sum.splits)
  from Cons.IH[OF r] makeBackend_Inr[OF b] a show ?case
    by (auto simp: dom_update)
qed

lemma lookupBackends_Inr:
  "lookupBackends byName ns acc = Inr bs \<Longrightarrow> set ns \<subseteq> fst ` set byName"
proof (induction ns arbitrary: acc)
  case Nil
  then show ?case by simp
next
  case (Cons n ns)
  then show ?case
    by (auto split: option.splits dest: map_of_SomeD simp: rev_image_eqI)
qed

lemma makeBackendGroups_Inr:
  "makeBackendGroups byName cfgs acc = Inr gs \<Longrightarrow>
     fst ` set gs = fst ` set acc \<union> fst ` set cfgs
     \<and> (\<forall>(n, bg) \<in> set cfgs. set (BackendGroupConfig_Backends bg) \<subseteq> fst ` set byName)"
proof (induction cfgs arbitrary: acc)
  case Nil
  then show ?case by simp
next
  case (Cons a cfgs)
  obtain bgName bg where a: "a = (bgName, bg)" by (cases a)
  from Cons.prems a obtain backends where
    l: "lookupBackends byName (BackendGroupConfig_Backends bg) [] = Inr backends" and
    r: "makeBackendGroups byName cfgs
          (AList.update bgName
             \<lparr>BackendGroup_Name = bgName, BackendGroup_Backends = backends, Consensus = None\<rparr>
             acc) = Inr gs"
    by (auto split: sum.splits)
  from Cons.IH[OF r] lookupBackends_Inr[OF l] a show ?case
    by (auto simp: dom_update)
qed

lemma checkMappings_Inr:
  "checkMappings gs ms = Inr u \<Longrightarrow> \<forall>(m, bg) \<in> set ms. bg \<in> fst ` set gs"
proof (induction ms)
  case Nil
  then show ?case by simp
next
  case (Cons a ms)
  then show ?case
    by (cases a) (auto split: option.splits dest: map_of_SomeD simp: rev_image_eqI)
qed

lemma Start_Inr_valid:
  assumes "snd (Start d g config) = Inr r"
  shows "Backends config \<noteq> []" "BackendGroups config \<noteq> []" "RPCMethodMappings config \<noteq> []"
    "\<forall>(n, bg) \<in> set (BackendGroups config).
        set (BackendGroupConfig_Backends bg) \<subseteq> fst ` set (Backends config)"
    "\<forall>(m, bg) \<in> set (RPCMethodMappings config). bg \<in> fst ` set (BackendGroups config)"
    "\<forall>(n, cfg) \<in> set (Backends config). \<exists>u. ReadFromEnvOrConfig d (RPCURL cfg) = Inr u \<and> u \<noteq> []"
proof -
  from assms obtain redisClient l where
    b: "Start_beforeGlobals d config = Inr (redisClient, l)" and
    a: "Start_afterGlobals d config redisClient l = Inr r"
    unfolding Start_Inr by blast
  from b show "Backends config \<noteq> []" "BackendGroups config \<noteq> []" "RPCMethodMappings config \<noteq> []"
    unfolding Start_beforeGlobals_Inr by simp_all
  from a obtain backendNames backendsByName backendGroups where
    mb: "makeBackends d config l (makeSemaphore config) (Backends config) [] []
            = Inr (backendNames, backendsByName)" and
    mg: "makeBackendGroups backendsByName (BackendGroups config) [] = Inr backendGroups" and
    cm: "checkMappings backendGroups (RPCMethodMappings config) = Inr ()"
    unfolding Start_afterGlobals_Inr by blast
  from makeBackends_Inr[OF mb] makeBackendGroups_Inr[OF mg] checkMappings_Inr[OF cm]
  show "\<forall>(n, bg) \<in> set (BackendGroups config).
        set (BackendGroupConfig_Backends bg) \<subseteq> fst ` set (Backends config)"
    "\<forall>(m, bg) \<in> set (RPCMethodMappings config). bg \<in> fst ` set (BackendGroups config)"
    "\<forall>(n, cfg) \<in> set (Backends config). \<exists>u. ReadFromEnvOrConfig d (RPCURL cfg) = Inr u \<and> u \<noteq> []"
    by auto
qed

subsection \<open>Start-up validation\<close>

text \<open>
  C1: \<open>Start\<close> returns an error when the configuration defines no backends, no backend
  groups or no RPC method mappings, when a backend group names a backend that is not
  defined, when an RPC method mapping names a group that is not defined, and when the RPC
  URL of a backend resolves to the empty string.
\<close>

theorem Start_fails_on_invalid_config:
  assumes "Backends config = [] \<or> BackendGroups config = [] \<or> RPCMethodMappings config = []
     \<or> (\<exists>(n, bg) \<in> set (BackendGroups config).
           \<exists>bName \<in> set (BackendGroupConfig_Backends bg). bName \<notin> fst ` set (Backends config))
     \<or> (\<exists>(m, bg) \<in> set (RPCMethodMappings config). bg \<notin> fst ` set (BackendGroups config))
     \<or> (\<exists>(n, cfg) \<in> set (Backends config). ReadFromEnvOrConfig d (RPCURL cfg) = Inr [])"
  shows "isl (snd (Start d g config))"
proof (rule ccontr)
  assume "\<not> isl (snd (Start d g config))"
  then obtain r where r: "snd (Start d g config) = Inr r"
    by (cases "snd (Start d g config)") auto
  from Start_Inr_valid[OF r] assms show False
    by fastforce
qed

theorem Start_fails_on_invalid_config_witness:
  "isl (snd (Start collaborators_ok globals0 config_noBackends))
   \<and> isl (snd (Start collaborators_ok globals0 config_noGroups))
   \<and> isl (snd (Start collaborators_ok globals0 config_noMappings))
   \<and> ''ghost'' \<notin> fst ` set (Backends config_undefinedBackend)
   \<and> isl (snd (Start collaborators_ok globals0 config_undefinedBackend))
   \<and> ''archive'' \<notin> fst ` set (BackendGroups config_undefinedGroup)
   \<and> isl (snd (Start collaborators_ok globals0 config_undefinedGroup))
   \<and> ReadFromEnvOrConfig collaborators_ok [] = Inr []
   \<and> isl (snd (Start collaborators_ok globals0 config_emptyURL))"
  using Start_fails_on_invalid_config [of config_noBackends collaborators_ok globals0]
    Start_fails_on_invalid_config [of config_noGroups collaborators_ok globals0]
    Start_fails_on_invalid_config [of config_noMappings collaborators_ok globals0]
    Start_fails_on_invalid_config [of config_undefinedBackend collaborators_ok globals0]
    Start_fails_on_invalid_config [of config_undefinedGroup collaborators_ok globals0]
    Start_fails_on_invalid_config [of config_emptyURL collaborators_ok globals0]
  by (simp add: config_noBackends_def config_noGroups_def config_noMappings_def
      config_undefinedBackend_def config_undefinedGroup_def config_emptyURL_def
      config0_def group0_def backend0_def collaborators_ok_def)

subsection \<open>Evaluations of the running example\<close>

lemma Start_config0_succeeds: "\<not> isl (snd (Start collaborators_ok globals0 config0))"
  by code_simp

lemma isl_Inr_conv: "\<not> isl x \<longleftrightarrow> (\<exists>r. x = Inr r)"
  by (cases x) auto

subsection \<open>The authentication map\<close>

lemma authKeys_Inr: "authKeys auth = Inr u \<longleftrightarrow> ''none'' \<notin> fst ` set auth"
  by (induction auth rule: authKeys.induct) auto

text \<open>
  C2, as the code has it: the check of lines 32-36 ranges over the keys of the
  authentication map, which are the secrets. \<open>Start\<close> returns an error when a secret is
  \<open>none\<close>; the check passes exactly when no secret is \<open>none\<close>, whatever the aliases.
\<close>

theorem Start_rejects_secret_none:
  "(Authentication config = Some auth \<and> ''none'' \<in> fst ` set auth
      \<longrightarrow> isl (snd (Start d g config)))
   \<and> (authKeys auth = Inr () \<longleftrightarrow> ''none'' \<notin> fst ` set auth)
   \<and> authKeys (map (\<lambda>(secret, alias). (secret, f alias)) auth) = authKeys auth"
proof (intro conjI impI)
  assume a: "Authentication config = Some auth \<and> ''none'' \<in> fst ` set auth"
  show "isl (snd (Start d g config))"
  proof (rule ccontr)
    assume "\<not> isl (snd (Start d g config))"
    then obtain r where "snd (Start d g config) = Inr r"
      unfolding isl_Inr_conv by blast
    then have "authKeys auth = Inr ()"
      using a unfolding Start_Inr Start_beforeGlobals_Inr by auto
    with a show False
      by (simp add: authKeys_Inr)
  qed
next
  show "authKeys auth = Inr () \<longleftrightarrow> ''none'' \<notin> fst ` set auth"
    by (rule authKeys_Inr)
next
  show "authKeys (map (\<lambda>(secret, alias). (secret, f alias)) auth) = authKeys auth"
    by (induction auth rule: authKeys.induct) auto
qed

theorem Start_rejects_secret_none_witness:
  "Authentication config_keyNone = Some [(''secret'', ''alice''), (''none'', ''bob'')]
   \<and> isl (snd (Start collaborators_ok globals0 config_keyNone))
   \<and> authKeys [(''secret'', ''none'')] = Inr ()"
  using Start_rejects_secret_none
    [of config_keyNone "[(''secret'', ''alice''), (''none'', ''bob'')]" collaborators_ok globals0]
    Start_rejects_secret_none [of config_aliasNone "[(''secret'', ''none'')]"]
  by (simp add: config_keyNone_def)

text \<open>C2, as the claim states it, fails: an entry whose alias is \<open>none\<close> does not stop \<open>Start\<close>.\<close>

theorem alias_none_counterexample:
  "Authentication config_aliasNone = Some [(''secret'', ''none'')]
   \<and> \<not> isl (snd (Start collaborators_ok globals0 config_aliasNone))"
  by code_simp

subsection \<open>The sender rate limit\<close>

text \<open>
  C3, as the code has it: the limit and the interval are checked only when the sender rate
  limit is enabled. Then \<open>Start\<close> returns an error when the limit is at most 0 or the
  interval is below one second; the check passes exactly when the sender rate limit is
  disabled, or the limit is positive and the interval at least one second.
\<close>

theorem Start_checks_enabled_sender_rate_limit:
  "(SenderRateLimit_Enabled (SenderRateLimit config)
      \<and> (Limit (SenderRateLimit config) \<le> 0 \<or> Interval (SenderRateLimit config) < 1000000000)
      \<longrightarrow> isl (snd (Start d g config)))
   \<and> (senderRateLimitCheck srl = Inr ()
        \<longleftrightarrow> (SenderRateLimit_Enabled srl \<longrightarrow> 0 < Limit srl \<and> 1000000000 \<le> Interval srl))"
proof (intro conjI impI)
  assume a: "SenderRateLimit_Enabled (SenderRateLimit config)
      \<and> (Limit (SenderRateLimit config) \<le> 0 \<or> Interval (SenderRateLimit config) < 1000000000)"
  show "isl (snd (Start d g config))"
  proof (rule ccontr)
    assume "\<not> isl (snd (Start d g config))"
    then obtain r where "snd (Start d g config) = Inr r"
      unfolding isl_Inr_conv by blast
    then have "senderRateLimitCheck (SenderRateLimit config) = Inr ()"
      unfolding Start_Inr Start_afterGlobals_Inr by blast
    with a show False
      by (auto simp: senderRateLimitCheck_def Second_def split: if_splits)
  qed
next
  show "senderRateLimitCheck srl = Inr ()
        \<longleftrightarrow> (SenderRateLimit_Enabled srl \<longrightarrow> 0 < Limit srl \<and> 1000000000 \<le> Interval srl)"
    by (auto simp: senderRateLimitCheck_def Second_def)
qed

theorem Start_checks_enabled_sender_rate_limit_witness:
  "isl (snd (Start collaborators_ok globals0 config_senderLimit0))
   \<and> isl (snd (Start collaborators_ok globals0 config_senderShortInterval))
   \<and> senderRateLimitCheck (SenderRateLimit config_senderOk) = Inr ()
   \<and> senderRateLimitCheck (SenderRateLimit config0) = Inr ()"
  using Start_checks_enabled_sender_rate_limit
      [of config_senderLimit0 collaborators_ok globals0 "SenderRateLimit config_senderOk"]
    Start_checks_enabled_sender_rate_limit
      [of config_senderShortInterval collaborators_ok globals0 "SenderRateLimit config0"]
  by (simp add: config_senderLimit0_def config_senderShortInterval_def config_senderOk_def
      config0_def)

text \<open>
  C3, as the claim states it, fails: with the sender rate limit disabled, a limit of 0 and
  an interval of 0 do not stop \<open>Start\<close>.
\<close>

theorem disabled_sender_rate_limit_counterexample:
  "Limit (SenderRateLimit config0) \<le> 0 \<and> Interval (SenderRateLimit config0) < Second
   \<and> \<not> isl (snd (Start collaborators_ok globals0 config0))"
  by code_simp

subsection \<open>The configured error messages\<close>

lemma Start_Inr_globals:
  "snd (Start d g config) = Inr r \<Longrightarrow> fst (Start d g config) = setErrorMessages config g"
  by (auto simp: Start_def split: sum.splits)

text \<open>
  C4, as the code has it: a \<open>Start\<close> that succeeds has assigned every configured message
  that is not empty to the \<open>Message\<close> field of its global error value
  (\<open>ErrOverRateLimit\<close>, \<open>ErrMethodNotWhitelisted\<close>, \<open>ErrTooManyBatchRequests\<close>), and has
  left the message of a global whose configured message is empty as it was.
\<close>

theorem Start_assigns_configured_messages:
  assumes "snd (Start d g config) = Inr r"
  shows "ErrOverRateLimit_Message (fst (Start d g config)) =
           (if RateLimit_ErrorMessage (RateLimit config) \<noteq> []
            then RateLimit_ErrorMessage (RateLimit config) else ErrOverRateLimit_Message g)
     \<and> ErrMethodNotWhitelisted_Message (fst (Start d g config)) =
           (if WhitelistErrorMessage config \<noteq> []
            then WhitelistErrorMessage config else ErrMethodNotWhitelisted_Message g)
     \<and> ErrTooManyBatchRequests_Message (fst (Start d g config)) =
           (if BatchConfig_ErrorMessage (BatchConfig config) \<noteq> []
            then BatchConfig_ErrorMessage (BatchConfig config)
            else ErrTooManyBatchRequests_Message g)"
  unfolding Start_Inr_globals[OF assms]
  by (simp add: setErrorMessages_def Let_def)

lemma Start_config_messages_succeeds:
  "\<not> isl (snd (Start collaborators_ok globals0 config_messages))"
  by code_simp

theorem Start_assigns_configured_messages_witness:
  "\<exists>r. snd (Start collaborators_ok globals0 config_messages) = Inr r
     \<and> fst (Start collaborators_ok globals0 config_messages) =
         \<lparr>ErrOverRateLimit_Message = ''slow down'',
          ErrMethodNotWhitelisted_Message = ''method not allowed'',
          ErrTooManyBatchRequests_Message = ''batch too big''\<rparr>"
proof -
  obtain r where r: "snd (Start collaborators_ok globals0 config_messages) = Inr r"
    using Start_config_messages_succeeds unfolding isl_Inr_conv by blast
  from Start_assigns_configured_messages[OF r] r show ?thesis
    by (simp add: config_messages_def config0_def globals.equality)
qed

text \<open>
  C4, as the claim states it, fails: \<open>Start\<close> writes the configured messages into the
  global error values, and a second \<open>Start\<close> with another message overwrites the first.
\<close>

theorem globals_modified_counterexample:
  "ErrOverRateLimit_Message globals0 = ''over rate limit''
   \<and> ErrOverRateLimit_Message (fst (Start collaborators_ok globals0 config_messages))
       = ''slow down''
   \<and> ErrOverRateLimit_Message
       (fst (Start collaborators_ok
               (fst (Start collaborators_ok globals0 config_messages)) config_messages'))
       = ''try again later''"
  by code_simp

subsection \<open>The backends of the groups\<close>

lemma set_update_subset: "set (AList.update k v al) \<subseteq> insert (k, v) (set al)"
  by (induction al) auto

lemma makeBackends_values:
  "makeBackends d config l sem bs names byName = Inr (names', byName') \<Longrightarrow>
   \<forall>(n, b) \<in> set byName. rateLimiter b = l \<and> rpcSemaphore b = sem \<Longrightarrow>
   \<forall>(n, b) \<in> set byName'. rateLimiter b = l \<and> rpcSemaphore b = sem"
proof (induction bs arbitrary: names byName)
  case Nil
  then show ?case by simp
next
  case (Cons a bs)
  obtain name cfg where a: "a = (name, cfg)" by (cases a)
  from Cons.prems(1) a obtain bk where
    b: "makeBackend d config l sem name cfg = Inr bk" and
    r: "makeBackends d config l sem bs (names @ [name]) (AList.update name bk byName)
          = Inr (names', byName')"
    by (auto split: sum.splits)
  have "\<forall>(n, b) \<in> set (AList.update name bk byName). rateLimiter b = l \<and> rpcSemaphore b = sem"
    using Cons.prems(2) makeBackend_Inr[OF b] set_update_subset[of name bk byName] by auto
  from Cons.IH[OF r this] show ?case .
qed

lemma lookupBackends_values:
  "lookupBackends byName ns acc = Inr bs \<Longrightarrow> set bs \<subseteq> set acc \<union> snd ` set byName"
proof (induction ns arbitrary: acc)
  case Nil
  then show ?case by simp
next
  case (Cons n ns)
  from Cons.prems obtain b where
    m: "map_of byName n = Some b" and r: "lookupBackends byName ns (acc @ [b]) = Inr bs"
    by (auto split: option.splits)
  from map_of_SomeD[OF m] have "b \<in> snd ` set byName"
    by force
  with Cons.IH[OF r] show ?case by auto
qed

lemma makeBackendGroups_values:
  "makeBackendGroups byName cfgs acc = Inr gs \<Longrightarrow>
   \<forall>(n, bg) \<in> set gs. (n, bg) \<in> set acc
      \<or> (set (BackendGroup_Backends bg) \<subseteq> snd ` set byName \<and> Consensus bg = None)"
proof (induction cfgs arbitrary: acc)
  case Nil
  then show ?case by auto
next
  case (Cons a cfgs)
  obtain bgName bg where a: "a = (bgName, bg)" by (cases a)
  from Cons.prems a obtain backends where
    l: "lookupBackends byName (BackendGroupConfig_Backends bg) [] = Inr backends" and
    r: "makeBackendGroups byName cfgs
          (AList.update bgName
             \<lparr>BackendGroup_Name = bgName, BackendGroup_Backends = backends, Consensus = None\<rparr>
             acc) = Inr gs"
    by (auto split: sum.splits)
  from Cons.IH[OF r] lookupBackends_values[OF l]
    set_update_subset[of bgName
      "\<lparr>BackendGroup_Name = bgName, BackendGroup_Backends = backends, Consensus = None\<rparr>" acc]
  show ?case by fastforce
qed

lemma makeBackendGroups_distinct:
  "makeBackendGroups byName cfgs acc = Inr gs \<Longrightarrow> distinct (map fst acc)
     \<Longrightarrow> distinct (map fst gs)"
proof (induction cfgs arbitrary: acc)
  case Nil
  then show ?case by simp
next
  case (Cons a cfgs)
  obtain bgName bg where a: "a = (bgName, bg)" by (cases a)
  from Cons.prems(1) a obtain backends where
    r: "makeBackendGroups byName cfgs
          (AList.update bgName
             \<lparr>BackendGroup_Name = bgName, BackendGroup_Backends = backends, Consensus = None\<rparr>
             acc) = Inr gs"
    by (auto split: sum.splits)
  from Cons.IH[OF r distinct_update[OF Cons.prems(2)]] show ?case .
qed

lemma makePollers_Inr:
  "makePollers cfgs gs = Inr gs' \<Longrightarrow>
   map fst gs' = map fst gs
   \<and> (\<forall>(n, bg') \<in> set gs'. \<exists>bg bgcfg. (n, bg) \<in> set gs \<and> map_of cfgs n = Some bgcfg
         \<and> bg' = (if ConsensusAware bgcfg
                  then bg\<lparr>Consensus := Some \<lparr>backendGroup = n, copts = consensusOpts bgcfg\<rparr>\<rparr>
                  else bg))"
proof (induction gs arbitrary: gs')
  case Nil
  then show ?case by simp
next
  case (Cons a gs)
  obtain bgName bg where a: "a = (bgName, bg)" by (cases a)
  from Cons.prems a obtain bgcfg rest' where
    m: "map_of cfgs bgName = Some bgcfg" and
    r: "makePollers cfgs gs = Inr rest'" and
    g: "gs' = (bgName, if ConsensusAware bgcfg
                  then bg\<lparr>Consensus := Some \<lparr>backendGroup = bgName, copts = consensusOpts bgcfg\<rparr>\<rparr>
                  else bg) # rest'"
    by (auto split: option.splits sum.splits)
  from Cons.IH[OF r] have ih1: "map fst rest' = map fst gs" and
    ih2: "\<forall>(n, bg') \<in> set rest'. \<exists>bg bgcfg. (n, bg) \<in> set gs \<and> map_of cfgs n = Some bgcfg
         \<and> bg' = (if ConsensusAware bgcfg
                  then bg\<lparr>Consensus := Some \<lparr>backendGroup = n, copts = consensusOpts bgcfg\<rparr>\<rparr>
                  else bg)"
    by blast+
  show ?case
  proof (intro conjI)
    show "map fst gs' = map fst (a # gs)"
      using ih1 a g by simp
    show "\<forall>(n, bg') \<in> set gs'. \<exists>bg bgcfg. (n, bg) \<in> set (a # gs) \<and> map_of cfgs n = Some bgcfg
         \<and> bg' = (if ConsensusAware bgcfg
                  then bg\<lparr>Consensus := Some \<lparr>backendGroup = n, copts = consensusOpts bgcfg\<rparr>\<rparr>
                  else bg)"
      unfolding g a using m ih2 by fastforce
  qed
qed

lemma Start_Inr_backends:
  assumes "snd (Start d g config) = Inr r"
  shows "\<forall>(n, bg) \<in> set (st_backendGroups r). \<forall>b \<in> set (BackendGroup_Backends bg).
           rateLimiter b = st_lim r \<and> rpcSemaphore b = st_rpcRequestSemaphore r"
proof -
  from assms obtain redisClient l where
    a: "Start_afterGlobals d config redisClient l = Inr r"
    unfolding Start_Inr by blast
  from a obtain backendNames backendsByName backendGroups where
    mb: "makeBackends d config l (makeSemaphore config) (Backends config) [] []
            = Inr (backendNames, backendsByName)" and
    mg: "makeBackendGroups backendsByName (BackendGroups config) [] = Inr backendGroups" and
    mp: "makePollers (BackendGroups config) backendGroups = Inr (st_backendGroups r)" and
    l: "st_lim r = l" and s: "st_rpcRequestSemaphore r = makeSemaphore config"
    unfolding Start_afterGlobals_Inr by force
  have v: "\<forall>(n, b) \<in> set backendsByName.
             rateLimiter b = l \<and> rpcSemaphore b = makeSemaphore config"
    using makeBackends_values[OF mb] by simp
  have gs: "\<forall>(n, bg) \<in> set backendGroups. set (BackendGroup_Backends bg) \<subseteq> snd ` set backendsByName"
    using makeBackendGroups_values[OF mg] by auto
  have ps: "\<forall>(n, bg') \<in> set (st_backendGroups r). \<exists>bg. (n, bg) \<in> set backendGroups
              \<and> BackendGroup_Backends bg' = BackendGroup_Backends bg"
    using makePollers_Inr[OF mp] by fastforce
  show ?thesis
  proof (clarify)
    fix n bg' b
    assume i: "(n, bg') \<in> set (st_backendGroups r)" and b: "b \<in> set (BackendGroup_Backends bg')"
    from ps i obtain bg where bg: "(n, bg) \<in> set backendGroups"
      and e: "BackendGroup_Backends bg' = BackendGroup_Backends bg"
      by blast
    from gs bg b e have "b \<in> snd ` set backendsByName"
      by auto
    with v show "rateLimiter b = st_lim r \<and> rpcSemaphore b = st_rpcRequestSemaphore r"
      unfolding l s by auto
  qed
qed

subsection \<open>The in-flight semaphore\<close>

text \<open>
  C8: when \<open>max_concurrent_rpcs\<close> is 0, a \<open>Start\<close> that succeeds has created the semaphore
  with capacity \<open>math.MaxInt64\<close>, that is \<open>2 ^ 63 - 1\<close>, and has given that semaphore to
  every backend of every group.
\<close>

theorem Start_zero_max_concurrent_rpcs:
  assumes "snd (Start d g config) = Inr r" and "MaxConcurrentRPCs (Server config) = 0"
  shows "st_rpcRequestSemaphore r = NewWeighted (2 ^ 63 - 1)
     \<and> (\<forall>(n, bg) \<in> set (st_backendGroups r). \<forall>b \<in> set (BackendGroup_Backends bg).
           rpcSemaphore b = NewWeighted (2 ^ 63 - 1))"
proof -
  from assms(1) obtain redisClient l where
    a: "Start_afterGlobals d config redisClient l = Inr r"
    unfolding Start_Inr by blast
  then have "st_rpcRequestSemaphore r = makeSemaphore config"
    unfolding Start_afterGlobals_Inr by force
  with assms(2) have s: "st_rpcRequestSemaphore r = NewWeighted (2 ^ 63 - 1)"
    by (simp add: makeSemaphore_def MaxInt64_def)
  with Start_Inr_backends[OF assms(1)] show ?thesis
    by fastforce
qed

theorem Start_zero_max_concurrent_rpcs_witness:
  "\<exists>r. snd (Start collaborators_ok globals0 config0) = Inr r
     \<and> MaxConcurrentRPCs (Server config0) = 0
     \<and> st_rpcRequestSemaphore r = NewWeighted 9223372036854775807"
proof -
  obtain r where r: "snd (Start collaborators_ok globals0 config0) = Inr r"
    using Start_config0_succeeds unfolding isl_Inr_conv by blast
  have z: "MaxConcurrentRPCs (Server config0) = 0"
    by (simp add: config0_def)
  from Start_zero_max_concurrent_rpcs[OF r z] r z show ?thesis
    by simp
qed

subsection \<open>The backend rate limiter\<close>

lemma makeRedisClient_Inr:
  "makeRedisClient d config = Inr redisClient \<Longrightarrow>
     (redisClient = None \<longleftrightarrow> URL (Redis config) = [])
     \<and> (\<forall>c. redisClient = Some c \<longrightarrow>
          (\<exists>rURL. ReadFromEnvOrConfig d (URL (Redis config)) = Inr rURL
             \<and> NewRedisClient d rURL = Inr c))"
  by (auto simp: makeRedisClient_def split: if_splits sum.splits)

text \<open>
  C9: \<open>Start\<close> returns an error when \<open>rate_limit.use_redis\<close> is set and no Redis URL is
  configured. A \<open>Start\<close> that succeeds has chosen the no-op limiter when the backend rate
  limiter is not enabled, the local limiter when it is enabled and no Redis URL is
  configured, and the Redis limiter over the client of the configured URL when it is
  enabled and a Redis URL is configured; every backend of every group has that limiter.
\<close>

theorem Start_chooses_rate_limiter:
  "(UseRedis (RateLimit config) \<and> URL (Redis config) = [] \<longrightarrow> isl (snd (Start d g config)))
   \<and> (snd (Start d g config) = Inr r \<longrightarrow>
        (\<not> EnableBackendRateLimiter (RateLimit config) \<longrightarrow> st_lim r = noopBackendRateLimiter)
      \<and> (EnableBackendRateLimiter (RateLimit config) \<and> URL (Redis config) = []
           \<longrightarrow> st_lim r = NewLocalBackendRateLimiter)
      \<and> (EnableBackendRateLimiter (RateLimit config) \<and> URL (Redis config) \<noteq> []
           \<longrightarrow> (\<exists>rURL c. ReadFromEnvOrConfig d (URL (Redis config)) = Inr rURL
                  \<and> NewRedisClient d rURL = Inr c \<and> st_lim r = NewRedisRateLimiter c))
      \<and> (\<forall>(n, bg) \<in> set (st_backendGroups r). \<forall>b \<in> set (BackendGroup_Backends bg).
            rateLimiter b = st_lim r))"
proof (intro conjI impI)
  assume a: "UseRedis (RateLimit config) \<and> URL (Redis config) = []"
  show "isl (snd (Start d g config))"
  proof (rule ccontr)
    assume "\<not> isl (snd (Start d g config))"
    then obtain r' where "snd (Start d g config) = Inr r'"
      unfolding isl_Inr_conv by blast
    then obtain redisClient where "makeRedisClient d config = Inr redisClient"
      and "\<not> (redisClient = None \<and> UseRedis (RateLimit config))"
      unfolding Start_Inr Start_beforeGlobals_Inr by blast
    with a makeRedisClient_Inr[of d config redisClient] show False
      by simp
  qed
next
  assume s: "snd (Start d g config) = Inr r"
  then obtain redisClient l where
    b: "Start_beforeGlobals d config = Inr (redisClient, l)" and
    a: "Start_afterGlobals d config redisClient l = Inr r"
    unfolding Start_Inr by blast
  from a have l: "st_lim r = l"
    unfolding Start_afterGlobals_Inr by force
  from b have rc: "makeRedisClient d config = Inr redisClient"
    and lim: "st_lim r = makeRateLimiter config redisClient"
    unfolding Start_beforeGlobals_Inr l by simp_all
  note rcs = makeRedisClient_Inr[OF rc]
  show "st_lim r = noopBackendRateLimiter" if "\<not> EnableBackendRateLimiter (RateLimit config)"
    using that lim by (simp add: makeRateLimiter_def)
  show "st_lim r = NewLocalBackendRateLimiter"
    if "EnableBackendRateLimiter (RateLimit config) \<and> URL (Redis config) = []"
    using that lim rcs by (simp add: makeRateLimiter_def)
  show "\<exists>rURL c. ReadFromEnvOrConfig d (URL (Redis config)) = Inr rURL
                  \<and> NewRedisClient d rURL = Inr c \<and> st_lim r = NewRedisRateLimiter c"
    if "EnableBackendRateLimiter (RateLimit config) \<and> URL (Redis config) \<noteq> []"
  proof -
    from that rcs obtain c where c: "redisClient = Some c"
      by (cases redisClient) auto
    with rcs obtain rURL where "ReadFromEnvOrConfig d (URL (Redis config)) = Inr rURL"
      and "NewRedisClient d rURL = Inr c"
      by blast
    with that lim c show ?thesis
      by (simp add: makeRateLimiter_def)
  qed
  show "\<forall>(n, bg) \<in> set (st_backendGroups r). \<forall>b \<in> set (BackendGroup_Backends bg).
            rateLimiter b = st_lim r"
    using Start_Inr_backends[OF s] by fastforce
qed

lemma Start_config_localLimiter_succeeds:
  "\<not> isl (snd (Start collaborators_ok globals0 config_localLimiter))"
  by code_simp

lemma Start_config_redisLimiter_succeeds:
  "\<not> isl (snd (Start collaborators_ok globals0 config_redisLimiter))"
  by code_simp

theorem Start_chooses_rate_limiter_witness:
  "isl (snd (Start collaborators_ok globals0 config_useRedisNoURL))
   \<and> (\<exists>r. snd (Start collaborators_ok globals0 config0) = Inr r
         \<and> st_lim r = noopBackendRateLimiter)
   \<and> (\<exists>r. snd (Start collaborators_ok globals0 config_localLimiter) = Inr r
         \<and> st_lim r = NewLocalBackendRateLimiter)
   \<and> (\<exists>r. snd (Start collaborators_ok globals0 config_redisLimiter) = Inr r
         \<and> st_lim r = NewRedisRateLimiter (RedisClient ''redis://cache:6379''))"
proof -
  obtain r0 where r0: "snd (Start collaborators_ok globals0 config0) = Inr r0"
    using Start_config0_succeeds unfolding isl_Inr_conv by blast
  obtain r1 where r1: "snd (Start collaborators_ok globals0 config_localLimiter) = Inr r1"
    using Start_config_localLimiter_succeeds unfolding isl_Inr_conv by blast
  obtain r2 where r2: "snd (Start collaborators_ok globals0 config_redisLimiter) = Inr r2"
    using Start_config_redisLimiter_succeeds unfolding isl_Inr_conv by blast
  have "isl (snd (Start collaborators_ok globals0 config_useRedisNoURL))"
    using Start_chooses_rate_limiter [of config_useRedisNoURL collaborators_ok globals0]
    by (simp add: config_useRedisNoURL_def config0_def)
  moreover have "st_lim r0 = noopBackendRateLimiter"
    using Start_chooses_rate_limiter [of config0 collaborators_ok globals0 r0] r0
    by (simp add: config0_def)
  moreover have "st_lim r1 = NewLocalBackendRateLimiter"
    using Start_chooses_rate_limiter [of config_localLimiter collaborators_ok globals0 r1] r1
    by (simp add: config_localLimiter_def config0_def)
  moreover have "st_lim r2 = NewRedisRateLimiter (RedisClient ''redis://cache:6379'')"
    using Start_chooses_rate_limiter [of config_redisLimiter collaborators_ok globals0 r2] r2
    by (simp add: config_redisLimiter_def config0_def collaborators_ok_def)
  ultimately show ?thesis
    using r0 r1 r2 by blast
qed

subsection \<open>The RPC cache\<close>

lemma makeRPCCache_Inr:
  "makeRPCCache d config redisClient = Inr (rpcCache, blockNumLVC, gasPriceLVC) \<Longrightarrow>
     (if Cache_Enabled (Cache config) then
        BlockSyncRPCURL (Cache config) \<noteq> []
        \<and> (\<exists>blockNumFn gasPriceFn.
             rpcCache = Some (newRPCCache
               (newCacheWithCompression
                  (case redisClient of None \<Rightarrow> newMemoryCache | Some c \<Rightarrow> newRedisCache c))
               blockNumFn gasPriceFn (NumBlockConfirmations (Cache config))))
      else rpcCache = None)"
  by (auto simp: makeRPCCache_def Let_def split: if_splits sum.splits prod.splits)

text \<open>
  C5: with caching enabled, \<open>Start\<close> returns an error when no block-sync RPC URL is
  configured. A \<open>Start\<close> that succeeds with caching enabled has built the RPC cache over
  the compression layer around the in-process map when no Redis URL is configured, and
  around the Redis store of the configured client when one is. With caching disabled there
  is no RPC cache.
\<close>

theorem Start_builds_rpc_cache:
  "(Cache_Enabled (Cache config) \<and> BlockSyncRPCURL (Cache config) = []
      \<longrightarrow> isl (snd (Start d g config)))
   \<and> (snd (Start d g config) = Inr r \<and> Cache_Enabled (Cache config) \<longrightarrow>
        (\<exists>store blockNumFn gasPriceFn.
           st_rpcCache r = Some (newRPCCache (newCacheWithCompression store) blockNumFn gasPriceFn
                                   (NumBlockConfirmations (Cache config)))
           \<and> (URL (Redis config) = [] \<longrightarrow> store = newMemoryCache)
           \<and> (URL (Redis config) \<noteq> [] \<longrightarrow>
                (\<exists>rURL c. ReadFromEnvOrConfig d (URL (Redis config)) = Inr rURL
                   \<and> NewRedisClient d rURL = Inr c \<and> store = newRedisCache c))))
   \<and> (snd (Start d g config) = Inr r \<and> \<not> Cache_Enabled (Cache config)
        \<longrightarrow> st_rpcCache r = None)"
proof -
  have inv: "\<exists>redisClient blockNumLVC gasPriceLVC.
      makeRedisClient d config = Inr redisClient
      \<and> makeRPCCache d config redisClient = Inr (st_rpcCache r', blockNumLVC, gasPriceLVC)"
    if "snd (Start d g config) = Inr r'" for r'
  proof -
    from that obtain redisClient l where
      b: "Start_beforeGlobals d config = Inr (redisClient, l)" and
      a: "Start_afterGlobals d config redisClient l = Inr r'"
      unfolding Start_Inr by blast
    from a obtain blockNumLVC gasPriceLVC where
      "makeRPCCache d config redisClient = Inr (st_rpcCache r', blockNumLVC, gasPriceLVC)"
      unfolding Start_afterGlobals_Inr by force
    with b show ?thesis
      unfolding Start_beforeGlobals_Inr by blast
  qed
  have c1: "isl (snd (Start d g config))"
    if a: "Cache_Enabled (Cache config) \<and> BlockSyncRPCURL (Cache config) = []"
  proof (rule ccontr)
    assume "\<not> isl (snd (Start d g config))"
    then obtain r' where "snd (Start d g config) = Inr r'"
      unfolding isl_Inr_conv by blast
    from inv[OF this] obtain redisClient blockNumLVC gasPriceLVC where
      "makeRPCCache d config redisClient = Inr (st_rpcCache r', blockNumLVC, gasPriceLVC)"
      by blast
    from makeRPCCache_Inr[OF this] a show False
      by simp
  qed
  have c2: "\<exists>store blockNumFn gasPriceFn.
           st_rpcCache r = Some (newRPCCache (newCacheWithCompression store) blockNumFn gasPriceFn
                                   (NumBlockConfirmations (Cache config)))
           \<and> (URL (Redis config) = [] \<longrightarrow> store = newMemoryCache)
           \<and> (URL (Redis config) \<noteq> [] \<longrightarrow>
                (\<exists>rURL c. ReadFromEnvOrConfig d (URL (Redis config)) = Inr rURL
                   \<and> NewRedisClient d rURL = Inr c \<and> store = newRedisCache c))"
    if a: "snd (Start d g config) = Inr r \<and> Cache_Enabled (Cache config)"
  proof -
    from inv a obtain redisClient blockNumLVC gasPriceLVC where
      rc: "makeRedisClient d config = Inr redisClient" and
      mc: "makeRPCCache d config redisClient = Inr (st_rpcCache r, blockNumLVC, gasPriceLVC)"
      by blast
    from makeRPCCache_Inr[OF mc] a obtain blockNumFn gasPriceFn where
      e: "st_rpcCache r = Some (newRPCCache
               (newCacheWithCompression
                  (case redisClient of None \<Rightarrow> newMemoryCache | Some c \<Rightarrow> newRedisCache c))
               blockNumFn gasPriceFn (NumBlockConfirmations (Cache config)))"
      by auto
    note rcs = makeRedisClient_Inr[OF rc]
    show ?thesis
    proof (cases redisClient)
      case None
      with e rcs show ?thesis by auto
    next
      case (Some c)
      with rcs obtain rURL where "ReadFromEnvOrConfig d (URL (Redis config)) = Inr rURL"
        and "NewRedisClient d rURL = Inr c" and "URL (Redis config) \<noteq> []"
        by auto
      with e Some show ?thesis by auto
    qed
  qed
  have c3: "st_rpcCache r = None"
    if a: "snd (Start d g config) = Inr r \<and> \<not> Cache_Enabled (Cache config)"
  proof -
    from inv a obtain redisClient blockNumLVC gasPriceLVC where
      "makeRPCCache d config redisClient = Inr (st_rpcCache r, blockNumLVC, gasPriceLVC)"
      by blast
    from makeRPCCache_Inr[OF this] a show ?thesis
      by simp
  qed
  from c1 c2 c3 show ?thesis
    by blast
qed

lemma Start_config_cacheMemory_succeeds:
  "\<not> isl (snd (Start collaborators_ok globals0 config_cacheMemory))"
  by code_simp

lemma Start_config_cacheRedis_succeeds:
  "\<not> isl (snd (Start collaborators_ok globals0 config_cacheRedis))"
  by code_simp

theorem Start_builds_rpc_cache_witness:
  "isl (snd (Start collaborators_ok globals0 config_cacheNoSync))
   \<and> (\<exists>r blockNumFn gasPriceFn.
         snd (Start collaborators_ok globals0 config_cacheMemory) = Inr r
         \<and> st_rpcCache r =
             Some (newRPCCache (newCacheWithCompression newMemoryCache) blockNumFn gasPriceFn 4))
   \<and> (\<exists>r blockNumFn gasPriceFn.
         snd (Start collaborators_ok globals0 config_cacheRedis) = Inr r
         \<and> st_rpcCache r =
             Some (newRPCCache
                     (newCacheWithCompression (newRedisCache (RedisClient ''redis://cache:6379'')))
                     blockNumFn gasPriceFn 4))
   \<and> (\<exists>r. snd (Start collaborators_ok globals0 config0) = Inr r \<and> st_rpcCache r = None)"
proof -
  obtain r0 where r0: "snd (Start collaborators_ok globals0 config0) = Inr r0"
    using Start_config0_succeeds unfolding isl_Inr_conv by blast
  obtain r1 where r1: "snd (Start collaborators_ok globals0 config_cacheMemory) = Inr r1"
    using Start_config_cacheMemory_succeeds unfolding isl_Inr_conv by blast
  obtain r2 where r2: "snd (Start collaborators_ok globals0 config_cacheRedis) = Inr r2"
    using Start_config_cacheRedis_succeeds unfolding isl_Inr_conv by blast
  have "isl (snd (Start collaborators_ok globals0 config_cacheNoSync))"
    using Start_builds_rpc_cache [of config_cacheNoSync collaborators_ok globals0]
    by (simp add: config_cacheNoSync_def config0_def)
  moreover have "st_rpcCache r0 = None"
    using Start_builds_rpc_cache [of config0 collaborators_ok globals0 r0] r0
    by (simp add: config0_def)
  moreover have "\<exists>blockNumFn gasPriceFn. st_rpcCache r1 =
      Some (newRPCCache (newCacheWithCompression newMemoryCache) blockNumFn gasPriceFn 4)"
    using Start_builds_rpc_cache [of config_cacheMemory collaborators_ok globals0 r1] r1
    by (simp add: config_cacheMemory_def config0_def)
  moreover have "\<exists>blockNumFn gasPriceFn. st_rpcCache r2 =
      Some (newRPCCache
              (newCacheWithCompression (newRedisCache (RedisClient ''redis://cache:6379'')))
              blockNumFn gasPriceFn 4)"
    using Start_builds_rpc_cache [of config_cacheRedis collaborators_ok globals0 r2] r2
    by (simp add: config_cacheRedis_def config_cacheMemory_def config0_def collaborators_ok_def)
  ultimately show ?thesis
    using r0 r1 r2 by blast
qed

subsection \<open>The consensus pollers\<close>

lemma consensusOpts_set:
  "set (consensusOpts bgcfg) =
     (if ConsensusAsyncHandler bgcfg = ''noop'' then {WithAsyncHandler_Noop} else {})
     \<union> (if ConsensusBanPeriod bgcfg > 0 then {WithBanPeriod (ConsensusBanPeriod bgcfg)} else {})
     \<union> (if ConsensusMaxUpdateThreshold bgcfg > 0
        then {WithMaxUpdateThreshold (ConsensusMaxUpdateThreshold bgcfg)} else {})
     \<union> (if ConsensusMaxBlockLag bgcfg > 0
        then {WithMaxBlockLag (ConsensusMaxBlockLag bgcfg)} else {})
     \<union> (if ConsensusMinPeerCount bgcfg > 0
        then {WithMinPeerCount (ConsensusMinPeerCount bgcfg)} else {})"
  by (simp add: consensusOpts_def)

text \<open>
  C7: after a \<open>Start\<close> that succeeds, the group objects are those of the configured
  groups, one per name. The group of a configuration with \<open>consensus_aware\<close> set holds a
  poller in its \<open>Consensus\<close> field, created for that group with the options of the group's
  configuration (the async handler when it is \<open>noop\<close>; the ban period, update threshold,
  block lag and min peer count when they are positive); the group of a configuration
  without the flag holds none.
\<close>

theorem Start_creates_consensus_pollers:
  assumes "snd (Start d g config) = Inr r"
  shows "fst ` set (st_backendGroups r) = fst ` set (BackendGroups config)
     \<and> distinct (map fst (st_backendGroups r))
     \<and> (\<forall>bgName bgcfg. map_of (BackendGroups config) bgName = Some bgcfg \<longrightarrow>
          (\<exists>bg. map_of (st_backendGroups r) bgName = Some bg
             \<and> Consensus bg =
                 (if ConsensusAware bgcfg
                  then Some \<lparr>backendGroup = bgName, copts = consensusOpts bgcfg\<rparr>
                  else None)))
     \<and> (\<forall>bgcfg x.
          (WithAsyncHandler_Noop \<in> set (consensusOpts bgcfg)
             \<longleftrightarrow> ConsensusAsyncHandler bgcfg = ''noop'')
        \<and> (WithBanPeriod x \<in> set (consensusOpts bgcfg)
             \<longleftrightarrow> x = ConsensusBanPeriod bgcfg \<and> 0 < x)
        \<and> (WithMaxUpdateThreshold x \<in> set (consensusOpts bgcfg)
             \<longleftrightarrow> x = ConsensusMaxUpdateThreshold bgcfg \<and> 0 < x)
        \<and> (WithMaxBlockLag x \<in> set (consensusOpts bgcfg)
             \<longleftrightarrow> x = ConsensusMaxBlockLag bgcfg \<and> 0 < x)
        \<and> (WithMinPeerCount x \<in> set (consensusOpts bgcfg)
             \<longleftrightarrow> x = ConsensusMinPeerCount bgcfg \<and> 0 < x))"
proof -
  from assms obtain redisClient l where
    a: "Start_afterGlobals d config redisClient l = Inr r"
    unfolding Start_Inr by blast
  from a obtain backendsByName backendGroups where
    mg: "makeBackendGroups backendsByName (BackendGroups config) [] = Inr backendGroups" and
    mp: "makePollers (BackendGroups config) backendGroups = Inr (st_backendGroups r)"
    unfolding Start_afterGlobals_Inr by force
  note p = makePollers_Inr[OF mp]
  have keys: "fst ` set (st_backendGroups r) = fst ` set (BackendGroups config)"
    using makeBackendGroups_Inr[OF mg] p by (metis empty_set image_empty list.set_map sup_bot.left_neutral)
  have dist: "distinct (map fst (st_backendGroups r))"
    using makeBackendGroups_distinct[OF mg] p by simp
  have none: "\<forall>(n, bg) \<in> set backendGroups. Consensus bg = None"
    using makeBackendGroups_values[OF mg] by auto
  have each: "\<exists>bg. map_of (st_backendGroups r) bgName = Some bg
             \<and> Consensus bg =
                 (if ConsensusAware bgcfg
                  then Some \<lparr>backendGroup = bgName, copts = consensusOpts bgcfg\<rparr>
                  else None)"
    if m: "map_of (BackendGroups config) bgName = Some bgcfg" for bgName bgcfg
  proof -
    from map_of_SomeD[OF m] keys have "bgName \<in> fst ` set (st_backendGroups r)"
      by force
    then obtain bg' where i: "(bgName, bg') \<in> set (st_backendGroups r)"
      by auto
    with dist have mo: "map_of (st_backendGroups r) bgName = Some bg'"
      by simp
    from p i obtain bg bgcfg' where "(bgName, bg) \<in> set backendGroups"
      and "map_of (BackendGroups config) bgName = Some bgcfg'"
      and "bg' = (if ConsensusAware bgcfg'
                  then bg\<lparr>Consensus := Some \<lparr>backendGroup = bgName, copts = consensusOpts bgcfg'\<rparr>\<rparr>
                  else bg)"
      by blast
    with m none mo show ?thesis
      by auto
  qed
  have opts: "(WithAsyncHandler_Noop \<in> set (consensusOpts bgcfg)
             \<longleftrightarrow> ConsensusAsyncHandler bgcfg = ''noop'')
        \<and> (WithBanPeriod x \<in> set (consensusOpts bgcfg)
             \<longleftrightarrow> x = ConsensusBanPeriod bgcfg \<and> 0 < x)
        \<and> (WithMaxUpdateThreshold x \<in> set (consensusOpts bgcfg)
             \<longleftrightarrow> x = ConsensusMaxUpdateThreshold bgcfg \<and> 0 < x)
        \<and> (WithMaxBlockLag x \<in> set (consensusOpts bgcfg)
             \<longleftrightarrow> x = ConsensusMaxBlockLag bgcfg \<and> 0 < x)
        \<and> (WithMinPeerCount x \<in> set (consensusOpts bgcfg)
             \<longleftrightarrow> x = ConsensusMinPeerCount bgcfg \<and> 0 < x)" for bgcfg x
    by (simp add: consensusOpts_set) (auto split: if_splits)
  have A: "\<forall>bgName bgcfg. map_of (BackendGroups config) bgName = Some bgcfg \<longrightarrow>
          (\<exists>bg. map_of (st_backendGroups r) bgName = Some bg
             \<and> Consensus bg =
                 (if ConsensusAware bgcfg
                  then Some \<lparr>backendGroup = bgName, copts = consensusOpts bgcfg\<rparr>
                  else None))"
    by (intro allI impI) (rule each)
  have B: "\<forall>bgcfg x.
          (WithAsyncHandler_Noop \<in> set (consensusOpts bgcfg)
             \<longleftrightarrow> ConsensusAsyncHandler bgcfg = ''noop'')
        \<and> (WithBanPeriod x \<in> set (consensusOpts bgcfg)
             \<longleftrightarrow> x = ConsensusBanPeriod bgcfg \<and> 0 < x)
        \<and> (WithMaxUpdateThreshold x \<in> set (consensusOpts bgcfg)
             \<longleftrightarrow> x = ConsensusMaxUpdateThreshold bgcfg \<and> 0 < x)
        \<and> (WithMaxBlockLag x \<in> set (consensusOpts bgcfg)
             \<longleftrightarrow> x = ConsensusMaxBlockLag bgcfg \<and> 0 < x)
        \<and> (WithMinPeerCount x \<in> set (consensusOpts bgcfg)
             \<longleftrightarrow> x = ConsensusMinPeerCount bgcfg \<and> 0 < x)"
    by (intro allI) (rule opts)
  show ?thesis
    by (rule conjI[OF keys conjI[OF dist conjI[OF A B]]])
qed

lemma Start_config_consensus_succeeds:
  "\<not> isl (snd (Start collaborators_ok globals0 config_consensus))"
  by code_simp

theorem Start_creates_consensus_pollers_witness:
  "\<exists>r bg bg'. snd (Start collaborators_ok globals0 config_consensus) = Inr r
     \<and> map_of (st_backendGroups r) ''main'' = Some bg
     \<and> Consensus bg =
         Some \<lparr>backendGroup = ''main'',
               copts = [WithAsyncHandler_Noop, WithBanPeriod 60000000000, WithMaxBlockLag 8,
                        WithMinPeerCount 3]\<rparr>
     \<and> map_of (st_backendGroups r) ''archive'' = Some bg'
     \<and> Consensus bg' = None"
proof -
  obtain r where r: "snd (Start collaborators_ok globals0 config_consensus) = Inr r"
    using Start_config_consensus_succeeds unfolding isl_Inr_conv by blast
  have m: "map_of (BackendGroups config_consensus) ''main'' = Some group_consensus"
    and a: "map_of (BackendGroups config_consensus) ''archive'' = Some group0"
    by (simp_all add: config_consensus_def)
  note each = Start_creates_consensus_pollers
    [OF r, THEN conjunct2, THEN conjunct2, THEN conjunct1, rule_format]
  from each[OF m] obtain bg where "map_of (st_backendGroups r) ''main'' = Some bg"
    and "Consensus bg =
           (if ConsensusAware group_consensus
            then Some \<lparr>backendGroup = ''main'', copts = consensusOpts group_consensus\<rparr>
            else None)"
    by (elim exE conjE)
  moreover from each[OF a] obtain bg' where "map_of (st_backendGroups r) ''archive'' = Some bg'"
    and "Consensus bg' =
           (if ConsensusAware group0
            then Some \<lparr>backendGroup = ''archive'', copts = consensusOpts group0\<rparr>
            else None)"
    by (elim exE conjE)
  ultimately have "map_of (st_backendGroups r) ''main'' = Some bg
     \<and> Consensus bg =
         Some \<lparr>backendGroup = ''main'',
               copts = [WithAsyncHandler_Noop, WithBanPeriod 60000000000, WithMaxBlockLag 8,
                        WithMinPeerCount 3]\<rparr>
     \<and> map_of (st_backendGroups r) ''archive'' = Some bg'
     \<and> Consensus bg' = None"
    by (simp add: group_consensus_def group0_def consensusOpts_def)
  with r show ?thesis
    by blast
qed

section \<open>Properties of the reader of \<open>makeUint64LastValueFn\<close>\<close>

subsection \<open>\<open>ParseUint\<close> accepts exactly the decimal \<open>uint64\<close> strings\<close>

lemma unat_cutoff: "unat cutoff = 1844674407370955162"
  by (simp add: cutoff_def maxUint64_def)

lemma not_above_maxUint64: "\<not> (n :: 64 word) > maxUint64"
  by (simp add: maxUint64_def not_less)

lemma unat_times_10:
  assumes "unat (n :: 64 word) < 1844674407370955162"
  shows "unat (n * 10) = unat n * 10"
proof -
  have "unat (n * 10) = (unat n * 10) mod 2 ^ 64"
    by (simp add: unat_word_ariths)
  also have "\<dots> = unat n * 10"
    using assms by simp
  finally show ?thesis .
qed

lemma unat_digit: "d \<le> 9 \<Longrightarrow> unat (word_of_nat d :: 64 word) = d"
  by (simp add: unat_of_nat)

lemma unat_step:
  assumes "unat (n :: 64 word) < 1844674407370955162" and "d \<le> 9"
  shows "unat (n * 10 + word_of_nat d) = (unat n * 10 + d) mod 18446744073709551616"
  using unat_times_10[OF assms(1)] unat_digit[OF assms(2)]
  by (simp add: unat_word_ariths)

lemma step_overflow:
  assumes "unat (n :: 64 word) < 1844674407370955162" and "d \<le> 9"
  shows "n * 10 + word_of_nat d < n * 10 \<longleftrightarrow> 18446744073709551616 \<le> unat n * 10 + d"
proof (cases "unat n * 10 + d < 18446744073709551616")
  case True
  then have "unat (n * 10 + word_of_nat d) = unat n * 10 + d"
    using unat_step[OF assms] by simp
  with True show ?thesis
    using unat_times_10[OF assms(1)] by (simp add: word_less_nat_alt)
next
  case False
  then have ge: "18446744073709551616 \<le> unat n * 10 + d" by simp
  have lt: "unat n * 10 + d - 18446744073709551616 < 18446744073709551616"
    using assms by linarith
  have "(unat n * 10 + d) mod 18446744073709551616 = unat n * 10 + d - 18446744073709551616"
    using ge lt by (simp add: le_mod_geq)
  then have "unat (n * 10 + word_of_nat d) = unat n * 10 + d - 18446744073709551616"
    using unat_step[OF assms] by simp
  with ge assms show ?thesis
    using unat_times_10[OF assms(1)] by (simp add: word_less_nat_alt)
qed

lemma digit_le_9: "isDigit c \<Longrightarrow> (of_char c :: nat) - 48 \<le> 9"
  unfolding isDigit_def by linarith

lemma foldl_decimal_mono:
  "a \<le> foldl (\<lambda>n c. 10 * n + (of_char c - 48)) (a :: nat) cs"
proof (induction cs arbitrary: a)
  case Nil
  show ?case by simp
next
  case (Cons c cs)
  have "a \<le> 10 * a + (of_char c - 48)" by simp
  also have "\<dots> \<le> foldl (\<lambda>n c. 10 * n + (of_char c - 48)) (10 * a + (of_char c - 48)) cs"
    by (rule Cons.IH)
  finally show ?case by simp
qed

lemma ParseUint_loop_accepts:
  "list_all isDigit cs \<Longrightarrow>
   foldl (\<lambda>n c. 10 * n + (of_char c - 48)) (unat n) cs < 2 ^ 64 \<Longrightarrow>
   ParseUint_loop s0 cs n =
     (word_of_nat (foldl (\<lambda>n c. 10 * n + (of_char c - 48)) (unat n) cs), None)"
proof (induction cs arbitrary: n)
  case Nil
  then show ?case by simp
next
  case (Cons c cs)
  let ?d = "(of_char c :: nat) - 48"
  from Cons.prems(1) have dig: "isDigit c" and rest: "list_all isDigit cs"
    by simp_all
  have d9: "?d \<le> 9" using dig by (rule digit_le_9)
  from Cons.prems(2) have fin: "foldl (\<lambda>n c. 10 * n + (of_char c - 48)) (10 * unat n + ?d) cs
      < 18446744073709551616"
    by simp
  have small: "10 * unat n + ?d < 18446744073709551616"
    using foldl_decimal_mono[of "10 * unat n + ?d" cs] fin by linarith
  then have lt: "unat n < 1844674407370955162" by linarith
  then have nc: "\<not> n \<ge> cutoff"
    by (simp add: word_le_nat_alt unat_cutoff)
  have no: "\<not> n * 10 + word_of_nat ?d < n * 10"
    using step_overflow[OF lt d9] small by (simp add: mult.commute)
  have u: "unat (n * 10 + word_of_nat ?d) = 10 * unat n + ?d"
    using unat_step[OF lt d9] small by (simp add: mult.commute)
  have "ParseUint_loop s0 (c # cs) n = ParseUint_loop s0 cs (n * 10 + word_of_nat ?d)"
    using dig nc no not_above_maxUint64 by (simp add: Let_def)
  also have "\<dots> = (word_of_nat (foldl (\<lambda>n c. 10 * n + (of_char c - 48))
                        (unat (n * 10 + word_of_nat ?d)) cs), None)"
    using rest fin unfolding u[symmetric] by (intro Cons.IH) simp_all
  finally show ?case
    by (simp add: u)
qed

lemma ParseUint_loop_rejects:
  "\<not> (list_all isDigit cs \<and> foldl (\<lambda>n c. 10 * n + (of_char c - 48)) (unat n) cs < 2 ^ 64) \<Longrightarrow>
   snd (ParseUint_loop s0 cs n) \<noteq> None"
proof (induction cs arbitrary: n)
  case Nil
  then show ?case
    using unsigned_less[of n, where 'a = nat] by simp
next
  case (Cons c cs)
  let ?d = "(of_char c :: nat) - 48"
  show ?case
  proof (cases "isDigit c \<and> \<not> n \<ge> cutoff \<and> \<not> n * 10 + word_of_nat ?d < n * 10")
    case False
    then show ?thesis
      using not_above_maxUint64 by (auto simp: Let_def)
  next
    case True
    then have dig: "isDigit c" and nc: "\<not> n \<ge> cutoff"
      and no: "\<not> n * 10 + word_of_nat ?d < n * 10"
      by simp_all
    have d9: "?d \<le> 9" using dig by (rule digit_le_9)
    from nc have lt: "unat n < 1844674407370955162"
      by (simp add: word_le_nat_alt unat_cutoff)
    from no have small: "unat n * 10 + ?d < 18446744073709551616"
      using step_overflow[OF lt d9] by simp
    have u: "unat (n * 10 + word_of_nat ?d) = 10 * unat n + ?d"
      using unat_step[OF lt d9] small by (simp add: mult.commute)
    have e: "ParseUint_loop s0 (c # cs) n = ParseUint_loop s0 cs (n * 10 + word_of_nat ?d)"
      using dig nc no not_above_maxUint64 by (simp add: Let_def)
    have "\<not> (list_all isDigit cs
        \<and> foldl (\<lambda>n c. 10 * n + (of_char c - 48)) (unat (n * 10 + word_of_nat ?d)) cs < 2 ^ 64)"
      using Cons.prems dig unfolding u by simp
    from Cons.IH[OF this] show ?thesis
      unfolding e .
  qed
qed

lemma ParseUint_accepts:
  "isDecimalUint64 s \<Longrightarrow> ParseUint s = (word_of_nat (decimalValue s), None)"
  using ParseUint_loop_accepts[of s 0 s]
  by (simp add: isDecimalUint64_def ParseUint_def decimalValue_def)

lemma ParseUint_rejects:
  "\<not> isDecimalUint64 s \<Longrightarrow> snd (ParseUint s) \<noteq> None"
  using ParseUint_loop_rejects[of s 0 s]
  by (auto simp: isDecimalUint64_def ParseUint_def decimalValue_def)

subsection \<open>The errors of the reader\<close>

text \<open>
  C10: the reader that \<open>makeUint64LastValueFn\<close> returns yields an error and the number 0
  when the read of the last-value cache fails (the error of the read), when the stored
  value is the empty string (the error "key is unavailable"), and when the stored value is
  not a decimal \<open>uint64\<close>; every result with an error has the number 0. A stored decimal
  \<open>uint64\<close> is returned as its value, without an error.
\<close>

theorem uint64_reader_errors:
  assumes "makeUint64LastValueFn client cache key = (lvc, fn)"
  shows "(Read lvc = Inl err \<longrightarrow> callUint64LastValueFn Read fn = (0, Some err))
     \<and> (Read lvc = Inr [] \<longrightarrow>
          callUint64LastValueFn Read fn = (0, Some (Error (key @ '' is unavailable''))))
     \<and> (Read lvc = Inr val \<and> \<not> isDecimalUint64 val \<longrightarrow>
          fst (callUint64LastValueFn Read fn) = 0 \<and> snd (callUint64LastValueFn Read fn) \<noteq> None)
     \<and> (snd (callUint64LastValueFn Read fn) \<noteq> None \<longrightarrow> fst (callUint64LastValueFn Read fn) = 0)
     \<and> (Read lvc = Inr val \<and> isDecimalUint64 val \<longrightarrow>
          callUint64LastValueFn Read fn = (word_of_nat (decimalValue val), None))"
proof -
  from assms have fn: "fn = Uint64LastValueFn lvc" and key: "lvc_key lvc = key"
    by (auto simp: makeUint64LastValueFn_def Let_def)
  have 1: "callUint64LastValueFn Read fn = (0, Some err)" if "Read lvc = Inl err"
    using that by (simp add: callUint64LastValueFn_def fn)
  have 2: "callUint64LastValueFn Read fn = (0, Some (Error (key @ '' is unavailable'')))"
    if "Read lvc = Inr []"
    using that by (simp add: callUint64LastValueFn_def fn key)
  have 3: "fst (callUint64LastValueFn Read fn) = 0 \<and> snd (callUint64LastValueFn Read fn) \<noteq> None"
    if "Read lvc = Inr val \<and> \<not> isDecimalUint64 val"
  proof (cases "val = []")
    case True
    with that 2 show ?thesis by simp
  next
    case False
    from that have "snd (ParseUint val) \<noteq> None"
      by (simp add: ParseUint_rejects)
    then obtain x e where "ParseUint val = (x, Some e)"
      by (cases "ParseUint val") auto
    with that False show ?thesis
      by (simp add: callUint64LastValueFn_def fn)
  qed
  have 4: "fst (callUint64LastValueFn Read fn) = 0" if "snd (callUint64LastValueFn Read fn) \<noteq> None"
    using that
    by (auto simp: callUint64LastValueFn_def fn split: sum.splits if_splits prod.splits option.splits)
  have 5: "callUint64LastValueFn Read fn = (word_of_nat (decimalValue val), None)"
    if "Read lvc = Inr val \<and> isDecimalUint64 val"
  proof -
    from that have "val \<noteq> []"
      by (simp add: isDecimalUint64_def)
    with that ParseUint_accepts[of val] show ?thesis
      by (simp add: callUint64LastValueFn_def fn)
  qed
  from 1 2 3 4 5 show ?thesis
    by blast
qed

lemma decimal_examples:
  "\<not> isDecimalUint64 ''12a''" "\<not> isDecimalUint64 ''-1''"
  "\<not> isDecimalUint64 ''18446744073709551616''" "isDecimalUint64 ''18446744073709551615''"
  "decimalValue ''18446744073709551615'' = 18446744073709551615"
  by (simp_all add: isDecimalUint64_def isDigit_def decimalValue_def)

theorem uint64_reader_errors_witness:
  "callUint64LastValueFn (\<lambda>lvc. Inl (Error ''connection refused''))
       (snd (makeGetLatestBlockNumFn (EthClient ''http://sync:8545'') newMemoryCache))
     = (0, Some (Error ''connection refused''))
   \<and> callUint64LastValueFn (\<lambda>lvc. Inr [])
       (snd (makeGetLatestBlockNumFn (EthClient ''http://sync:8545'') newMemoryCache))
     = (0, Some (Error ''lvc:block_number is unavailable''))
   \<and> fst (callUint64LastValueFn (\<lambda>lvc. Inr ''12a'')
       (snd (makeGetLatestBlockNumFn (EthClient ''http://sync:8545'') newMemoryCache))) = 0
   \<and> snd (callUint64LastValueFn (\<lambda>lvc. Inr ''18446744073709551616'')
       (snd (makeGetLatestBlockNumFn (EthClient ''http://sync:8545'') newMemoryCache))) \<noteq> None
   \<and> callUint64LastValueFn (\<lambda>lvc. Inr ''18446744073709551615'')
       (snd (makeGetLatestBlockNumFn (EthClient ''http://sync:8545'') newMemoryCache))
     = (18446744073709551615, None)"
proof -
  have m: "makeUint64LastValueFn (EthClient ''http://sync:8545'') newMemoryCache ''lvc:block_number''
      = (lvc0, snd (makeGetLatestBlockNumFn (EthClient ''http://sync:8545'') newMemoryCache))"
    by (simp add: lvc0_def makeGetLatestBlockNumFn_def)
  show ?thesis
    using uint64_reader_errors [OF m, of "\<lambda>lvc. Inl (Error ''connection refused'')"
        "Error ''connection refused''"]
      uint64_reader_errors [OF m, of "\<lambda>lvc. Inr []"]
      uint64_reader_errors [OF m, of "\<lambda>lvc. Inr ''12a''" _ "''12a''"]
      uint64_reader_errors [OF m, of "\<lambda>lvc. Inr ''18446744073709551616''" _
        "''18446744073709551616''"]
      uint64_reader_errors [OF m, of "\<lambda>lvc. Inr ''18446744073709551615''" _
        "''18446744073709551615''"]
      decimal_examples
    by simp
qed

section \<open>Environment substitution\<close>




end
